theory Spec2Isabelle
  imports Complex_Main "HOL-Library.Log_Nat"
begin

section \<open>JavaScript values and objects\<close>

text \<open>
  The values that occur in user records and request bodies: the primitives and
  \<open>Date\<close> objects. A number of a record or of a request is finite and given
  by its value, a rational (\<open>NaN\<close> and the infinities occur as results of
  arithmetic only, see the section on numbers); strings are lists of
  characters with codes below 256, so \<open>length\<close> is the string's \<open>.length\<close>; a
  \<open>Date\<close> carries its time value only, and two dates with the same time value
  are not told apart. Arrays and nested objects are outside the model. On
  the primitives \<open>===\<close> and the key comparison of \<open>Map\<close> are equality; on dates
  the code compares the objects, so the model is exact where no date is
  compared: the emails and identifiers of the statements below are strings
  or \<open>undefined\<close>.
\<close>

datatype jsval =
    JUndefined
  | JNull
  | JBool bool
  | JNum rat
  | JStr string
  | JDate nat

text \<open>
  An object is a finite map from its own property names to values. An own
  property whose value is \<open>undefined\<close> is \<open>Some JUndefined\<close>; a missing one is
  \<open>None\<close>. Reading \<open>obj.f\<close> gives \<open>undefined\<close> in both cases.
\<close>

type_synonym jsobj = "string \<rightharpoonup> jsval"

definition get :: "jsobj \<Rightarrow> string \<Rightarrow> jsval" where
  "get obj f = (case obj f of None \<Rightarrow> JUndefined | Some v \<Rightarrow> v)"

text \<open>\<open>!v\<close> is \<open>\<not> truthy v\<close>.\<close>

fun truthy :: "jsval \<Rightarrow> bool" where
  "truthy JUndefined = False"
| "truthy JNull = False"
| "truthy (JBool b) = b"
| "truthy (JNum r) = (r \<noteq> 0)"
| "truthy (JStr s) = (s \<noteq> [])"
| "truthy (JDate t) = True"

fun typeof :: "jsval \<Rightarrow> string" where
  "typeof JUndefined = ''undefined''"
| "typeof JNull = ''object''"
| "typeof (JBool b) = ''boolean''"
| "typeof (JNum r) = ''number''"
| "typeof (JStr s) = ''string''"
| "typeof (JDate t) = ''object''"

section \<open>The store: class Database\<close>

text \<open>
  \<open>this.users\<close> is a \<open>Map\<close>; it keeps its entries in insertion order, which is
  the order of \<open>findAllUsers\<close>. It is an association list with distinct keys.
  Every operation is taken as a whole (the caller awaits it before the next
  one): the connection test runs at the call, the body in the timer callback.
\<close>

record db =
  users :: "(jsval \<times> jsobj) list"
  isConnected :: bool

text \<open>\<open>Map.prototype.get\<close>, \<open>set\<close>, \<open>has\<close>, \<open>delete\<close> and \<open>values\<close>.\<close>

definition map_get :: "(jsval \<times> jsobj) list \<Rightarrow> jsval \<Rightarrow> jsobj option" where
  "map_get m k = map_of m k"

fun map_set :: "(jsval \<times> jsobj) list \<Rightarrow> jsval \<Rightarrow> jsobj \<Rightarrow> (jsval \<times> jsobj) list" where
  "map_set [] k v = [(k, v)]"
| "map_set ((k', v') # m) k v = (if k' = k then (k, v) # m else (k', v') # map_set m k v)"

definition map_has :: "(jsval \<times> jsobj) list \<Rightarrow> jsval \<Rightarrow> bool" where
  "map_has m k = (map_of m k \<noteq> None)"

definition map_delete :: "(jsval \<times> jsobj) list \<Rightarrow> jsval \<Rightarrow> (jsval \<times> jsobj) list" where
  "map_delete m k = filter (\<lambda>(k', v). k' \<noteq> k) m"

definition map_values :: "(jsval \<times> jsobj) list \<Rightarrow> jsobj list" where
  "map_values m = map snd m"

text \<open>
  \<open>seedData\<close>, run by the constructor; the two results of \<open>uuidv4()\<close> are
  parameters. \<open>new Date('2023-01-01')\<close> and \<open>new Date('2023-01-02')\<close> are
  given by their time values in milliseconds.
\<close>

definition sampleUsers :: "string \<Rightarrow> string \<Rightarrow> jsobj list" where
  "sampleUsers uuid1 uuid2 =
    [ [''id'' \<mapsto> JStr uuid1, ''name'' \<mapsto> JStr ''John Doe'',
       ''email'' \<mapsto> JStr ''john@example.com'', ''age'' \<mapsto> JNum 30,
       ''createdAt'' \<mapsto> JDate 1672531200000, ''updatedAt'' \<mapsto> JDate 1672531200000],
      [''id'' \<mapsto> JStr uuid2, ''name'' \<mapsto> JStr ''Jane Smith'',
       ''email'' \<mapsto> JStr ''jane@example.com'', ''age'' \<mapsto> JNum 25,
       ''createdAt'' \<mapsto> JDate 1672617600000, ''updatedAt'' \<mapsto> JDate 1672617600000] ]"

definition seedData :: "string \<Rightarrow> string \<Rightarrow> db \<Rightarrow> db" where
  "seedData uuid1 uuid2 d =
     d\<lparr>users := fold (\<lambda>user m. map_set m (get user ''id'') user) (sampleUsers uuid1 uuid2) (users d)\<rparr>"

definition new_Database :: "string \<Rightarrow> string \<Rightarrow> db" where
  "new_Database uuid1 uuid2 = seedData uuid1 uuid2 \<lparr>users = [], isConnected = False\<rparr>"

definition connect :: "db \<Rightarrow> db" where
  "connect d = d\<lparr>isConnected := True\<rparr>"

definition disconnect :: "db \<Rightarrow> db" where
  "disconnect d = d\<lparr>isConnected := False\<rparr>"

text \<open>
  A rejected promise or a thrown \<open>Error\<close> is \<open>Inl\<close> of its message. The
  operations that write return the store as well.
\<close>

definition findAllUsers :: "db \<Rightarrow> string + jsobj list" where
  "findAllUsers d =
     (if \<not> isConnected d then Inl ''Database not connected''
      else Inr (map_values (users d)))"

definition findUserById :: "db \<Rightarrow> jsval \<Rightarrow> string + jsobj option" where
  "findUserById d id' =
     (if \<not> isConnected d then Inl ''Database not connected''
      else Inr (map_get (users d) id'))"

definition findUserByEmail :: "db \<Rightarrow> jsval \<Rightarrow> string + jsobj option" where
  "findUserByEmail d email =
     (if \<not> isConnected d then Inl ''Database not connected''
      else Inr (find (\<lambda>u. get u ''email'' = email) (map_values (users d))))"

text \<open>
  \<open>createUser\<close>: \<open>uuid\<close> is what \<open>uuidv4()\<close> returns, \<open>tc\<close> and \<open>tu\<close> are the two
  clock readings of \<open>new Date()\<close>. The object literal
  \<open>{id: uuidv4(), ...userData, createdAt: new Date(), updatedAt: new Date()}\<close>
  is built left to right; a later property replaces an earlier one.
\<close>

definition createUser :: "db \<Rightarrow> string \<Rightarrow> nat \<Rightarrow> nat \<Rightarrow> jsobj \<Rightarrow> (string + jsobj) \<times> db" where
  "createUser d uuid tc tu userData =
     (if \<not> isConnected d then (Inl ''Database not connected'', d)
      else
        (case find (\<lambda>u. get u ''email'' = get userData ''email'') (map_values (users d)) of
           Some existingUser \<Rightarrow> (Inl ''User with this email already exists'', d)
         | None \<Rightarrow>
             (let newUser = ([''id'' \<mapsto> JStr uuid] ++ userData)
                              (''createdAt'' \<mapsto> JDate tc, ''updatedAt'' \<mapsto> JDate tu)
              in (Inr newUser, d\<lparr>users := map_set (users d) (get newUser ''id'') newUser\<rparr>))))"

text \<open>\<open>updateUser\<close>: \<open>{...user, ...updateData, updatedAt: new Date()}\<close>.\<close>

definition updateUser :: "db \<Rightarrow> nat \<Rightarrow> jsval \<Rightarrow> jsobj \<Rightarrow> (string + jsobj) \<times> db" where
  "updateUser d tu id' updateData =
     (if \<not> isConnected d then (Inl ''Database not connected'', d)
      else
        (case map_get (users d) id' of
           None \<Rightarrow> (Inl ''User not found'', d)
         | Some user \<Rightarrow>
             (if truthy (get updateData ''email'') \<and> get updateData ''email'' \<noteq> get user ''email''
                 \<and> find (\<lambda>u. get u ''email'' = get updateData ''email'') (map_values (users d)) \<noteq> None
              then (Inl ''User with this email already exists'', d)
              else
                (let updatedUser = (user ++ updateData)(''updatedAt'' \<mapsto> JDate tu)
                 in (Inr updatedUser, d\<lparr>users := map_set (users d) id' updatedUser\<rparr>)))))"

definition deleteUser :: "db \<Rightarrow> jsval \<Rightarrow> (string + bool) \<times> db" where
  "deleteUser d id' =
     (if \<not> isConnected d then (Inl ''Database not connected'', d)
      else if \<not> map_has (users d) id' then (Inl ''User not found'', d)
      else (Inr True, d\<lparr>users := map_delete (users d) id'\<rparr>))"

definition clearAllData :: "db \<Rightarrow> (string + bool) \<times> db" where
  "clearAllData d =
     (if \<not> isConnected d then (Inl ''Database not connected'', d)
      else (Inr True, d\<lparr>users := []\<rparr>))"

section \<open>Validation utilities: class Validator\<close>

text \<open>
  The characters of \<open>\s\<close>, which are also the ones \<open>trim()\<close> removes, among the
  characters below 256: tab, line feed, vertical tab, form feed, carriage
  return, space and no-break space.
\<close>

definition isSpace :: "char \<Rightarrow> bool" where
  "isSpace c = (c \<in> set [CHR 0x09, CHR 0x0A, CHR 0x0B, CHR 0x0C, CHR 0x0D, CHR 0x20, CHR 0xA0])"

definition trim :: "string \<Rightarrow> string" where
  "trim s = rev (dropWhile isSpace (rev (dropWhile isSpace s)))"

text \<open>
  \<open>/^[^\s@]+@[^\s@]+\.[^\s@]+$/.test(s)\<close>. The first run of \<open>[^\s@]\<close> ends at
  the first \<open>@\<close> or space, which must be an \<open>@\<close>; what follows has neither
  and holds a dot that is neither its first nor its last character.
\<close>

definition notSpaceAt :: "char \<Rightarrow> bool" where
  "notSpaceAt c = (\<not> isSpace c \<and> c \<noteq> CHR ''@'')"

definition emailRegex_test :: "string \<Rightarrow> bool" where
  "emailRegex_test s =
     (let local = takeWhile notSpaceAt s; rest = dropWhile notSpaceAt s
      in local \<noteq> [] \<and>
         (case rest of
            [] \<Rightarrow> False
          | c # domain \<Rightarrow> c = CHR ''@'' \<and> list_all notSpaceAt domain
                          \<and> CHR ''.'' \<in> set (butlast (tl domain))))"

definition Validator_isValidEmail :: "jsval \<Rightarrow> bool" where
  "Validator_isValidEmail email =
     (if \<not> truthy email \<or> typeof email \<noteq> ''string'' then False
      else (case email of JStr s \<Rightarrow> emailRegex_test (trim s) | _ \<Rightarrow> False))"

definition Validator_isValidName :: "jsval \<Rightarrow> bool" where
  "Validator_isValidName name =
     (if \<not> truthy name \<or> typeof name \<noteq> ''string'' then False
      else (case name of
              JStr s \<Rightarrow> (let trimmedName = trim s in length trimmedName \<ge> 2 \<and> length trimmedName \<le> 100)
            | _ \<Rightarrow> False))"

definition Validator_isValidAge :: "jsval \<Rightarrow> bool" where
  "Validator_isValidAge age =
     (typeof age = ''number'' \<and> (case age of JNum r \<Rightarrow> r \<ge> 0 \<and> r \<le> 150 | _ \<Rightarrow> False))"

section \<open>Numbers\<close>

text \<open>
  What an arithmetic operator returns: a finite double, \<open>NaN\<close> or an infinity.
  A finite double is given by its value, a rational (the number written
  \<open>0.1\<close> is \<open>3602879701896397 / 36028797018963968\<close>); the sign of zero is not
  modelled. \<open>fl\<close> rounds a rational to the nearest double, ties to the even
  significand, as every operation of IEEE 754 binary64 does with its exact
  result: \<open>ilog2 x\<close> is the exponent of \<open>x > 0\<close>, \<open>ulp x\<close> the distance between
  the doubles around \<open>x\<close> (significands of 53 bits, least exponent -1022), and
  a result of magnitude \<open>2 ^ 1024\<close> or more is an infinity.
\<close>

datatype jsnum = Finite rat | NaN | PosInfinity | NegInfinity

definition ilog2 :: "rat \<Rightarrow> int" where
  "ilog2 x = (if x \<ge> 1 then int (floorlog 2 (nat \<lfloor>x\<rfloor>)) - 1
              else - int (floorlog 2 (nat (\<lceil>1 / x\<rceil> - 1))))"

definition roundTiesToEven :: "rat \<Rightarrow> int" where
  "roundTiesToEven y =
     (let f = \<lfloor>y\<rfloor>; d = y - of_int f
      in if d < 1 / 2 then f else if d > 1 / 2 then f + 1 else if even f then f else f + 1)"

definition ulp :: "rat \<Rightarrow> rat" where
  "ulp x = 2 powi (max (ilog2 \<bar>x\<bar>) (- 1022) - 52)"

definition fl :: "rat \<Rightarrow> jsnum" where
  "fl x =
     (if x = 0 then Finite 0
      else
        (let r = of_int (roundTiesToEven (x / ulp x)) * ulp x
         in if r \<ge> 2 ^ 1024 then PosInfinity
            else if r \<le> - (2 ^ 1024) then NegInfinity
            else Finite r))"

text \<open>The sum of two Numbers, and a Number divided by a length.\<close>

fun fadd :: "jsnum \<Rightarrow> jsnum \<Rightarrow> jsnum" where
  "fadd (Finite a) (Finite b) = fl (a + b)"
| "fadd NaN y = NaN"
| "fadd x NaN = NaN"
| "fadd PosInfinity NegInfinity = NaN"
| "fadd NegInfinity PosInfinity = NaN"
| "fadd PosInfinity y = PosInfinity"
| "fadd x PosInfinity = PosInfinity"
| "fadd NegInfinity y = NegInfinity"
| "fadd x NegInfinity = NegInfinity"

fun fdiv :: "jsnum \<Rightarrow> nat \<Rightarrow> jsnum" where
  "fdiv (Finite a) n =
     (if n = 0 then (if a = 0 then NaN else if a > 0 then PosInfinity else NegInfinity)
      else fl (a / of_nat n))"
| "fdiv NaN n = NaN"
| "fdiv PosInfinity n = PosInfinity"
| "fdiv NegInfinity n = NegInfinity"

text \<open>
  \<open>Math.min\<close> and \<open>Math.max\<close> of Numbers: \<open>NaN\<close> if an argument is \<open>NaN\<close>, and
  the infinities for no argument.
\<close>

fun num_less :: "jsnum \<Rightarrow> jsnum \<Rightarrow> bool" where
  "num_less NegInfinity y = (y \<noteq> NegInfinity)"
| "num_less x PosInfinity = (x \<noteq> PosInfinity)"
| "num_less (Finite a) (Finite b) = (a < b)"
| "num_less x y = False"

definition Math_min :: "jsnum list \<Rightarrow> jsnum" where
  "Math_min xs =
     (if NaN \<in> set xs then NaN
      else fold (\<lambda>x m. if num_less x m then x else m) xs PosInfinity)"

definition Math_max :: "jsnum list \<Rightarrow> jsnum" where
  "Math_max xs =
     (if NaN \<in> set xs then NaN
      else fold (\<lambda>x m. if num_less m x then x else m) xs NegInfinity)"

text \<open>
  Three conversions of the JavaScript runtime are parameters: the decimal
  text of a finite number, the number that a string denotes, and the text of
  a date (which depends on the time zone of the host). \<open>+\<close> and \<open>/\<close> call them
  when an operand is a string or a date.
\<close>

record runtime =
  Number_toString :: "rat \<Rightarrow> string"
  String_toNumber :: "string \<Rightarrow> jsnum"
  Date_toString :: "nat \<Rightarrow> string"

fun numToString :: "runtime \<Rightarrow> jsnum \<Rightarrow> string" where
  "numToString rt (Finite r) = Number_toString rt r"
| "numToString rt NaN = ''NaN''"
| "numToString rt PosInfinity = ''Infinity''"
| "numToString rt NegInfinity = ''-Infinity''"

fun ToString :: "runtime \<Rightarrow> jsval \<Rightarrow> string" where
  "ToString rt JUndefined = ''undefined''"
| "ToString rt JNull = ''null''"
| "ToString rt (JBool b) = (if b then ''true'' else ''false'')"
| "ToString rt (JNum r) = Number_toString rt r"
| "ToString rt (JStr s) = s"
| "ToString rt (JDate t) = Date_toString rt t"

fun ToNumber :: "runtime \<Rightarrow> jsval \<Rightarrow> jsnum" where
  "ToNumber rt JUndefined = NaN"
| "ToNumber rt JNull = Finite 0"
| "ToNumber rt (JBool b) = Finite (if b then 1 else 0)"
| "ToNumber rt (JNum r) = Finite r"
| "ToNumber rt (JStr s) = String_toNumber rt s"
| "ToNumber rt (JDate t) = Finite (of_nat t)"

text \<open>
  \<open>sum + v\<close>, where \<open>sum\<close> is a Number or a string: a string or a date on either
  side makes it a concatenation, otherwise it is the sum of Numbers.
\<close>

datatype prim = PNumber jsnum | PString string

fun js_plus :: "runtime \<Rightarrow> prim \<Rightarrow> jsval \<Rightarrow> prim" where
  "js_plus rt (PNumber a) (JStr s) = PString (numToString rt a @ s)"
| "js_plus rt (PNumber a) (JDate t) = PString (numToString rt a @ Date_toString rt t)"
| "js_plus rt (PNumber a) v = PNumber (fadd a (ToNumber rt v))"
| "js_plus rt (PString x) v = PString (x @ ToString rt v)"

fun primToNumber :: "runtime \<Rightarrow> prim \<Rightarrow> jsnum" where
  "primToNumber rt (PNumber a) = a"
| "primToNumber rt (PString x) = String_toNumber rt x"

section \<open>The service: class UserService\<close>

text \<open>
  The result envelope \<open>{success, data, error, message}\<close>. A key that the object
  literal does not have is \<open>None\<close>.
\<close>

record stats =
  totalUsers :: nat
  averageAge :: jsnum
  youngestUser :: jsnum
  oldestUser :: jsnum

datatype payload =
    UsersData "jsobj list"
  | UserData jsobj
  | StatsData stats

record envelope =
  success :: bool
  data :: "payload option"
  error :: "string option"
  message :: string

record validationResult =
  isValid :: bool
  errors :: "string list"

text \<open>\<open>errors.join(sep)\<close>.\<close>

fun join :: "string list \<Rightarrow> string \<Rightarrow> string" where
  "join [] sep = []"
| "join [x] sep = x"
| "join (x # y # ys) sep = x @ sep @ join (y # ys) sep"

text \<open>
  \<open>isValidEmail\<close> of the service: \<open>emailRegex.test(email)\<close> turns a value that is
  not a string into a string first. For the values of the model that string
  (\<open>undefined\<close>, \<open>null\<close>, \<open>true\<close>, a decimal numeral, a date) never holds an \<open>@\<close>,
  so the test fails.
\<close>

definition isValidEmail :: "jsval \<Rightarrow> bool" where
  "isValidEmail email = (case email of JStr s \<Rightarrow> emailRegex_test s | _ \<Rightarrow> False)"

definition validateUserData :: "jsobj \<Rightarrow> validationResult" where
  "validateUserData userData =
     (let errors = [];
          errors =
            (if \<not> truthy (get userData ''name'') \<or> typeof (get userData ''name'') \<noteq> ''string''
                \<or> (case get userData ''name'' of JStr s \<Rightarrow> length (trim s) < 2 | _ \<Rightarrow> False)
             then errors @ [''Name must be at least 2 characters long''] else errors);
          errors =
            (if \<not> truthy (get userData ''email'') \<or> \<not> isValidEmail (get userData ''email'')
             then errors @ [''Valid email is required''] else errors);
          errors =
            (if get userData ''age'' = JUndefined \<or> get userData ''age'' = JNull
                \<or> typeof (get userData ''age'') \<noteq> ''number''
                \<or> (case get userData ''age'' of JNum r \<Rightarrow> r < 0 \<or> r > 150 | _ \<Rightarrow> False)
             then errors @ [''Age must be a number between 0 and 150''] else errors)
      in \<lparr>isValid = (length errors = 0), errors = errors\<rparr>)"

definition validateUpdateData :: "jsobj \<Rightarrow> validationResult" where
  "validateUpdateData updateData =
     (let errors = [];
          errors =
            (if get updateData ''name'' \<noteq> JUndefined
                \<and> (typeof (get updateData ''name'') \<noteq> ''string''
                     \<or> (case get updateData ''name'' of JStr s \<Rightarrow> length (trim s) < 2 | _ \<Rightarrow> False))
             then errors @ [''Name must be at least 2 characters long''] else errors);
          errors =
            (if get updateData ''email'' \<noteq> JUndefined \<and> \<not> isValidEmail (get updateData ''email'')
             then errors @ [''Valid email is required''] else errors);
          errors =
            (if get updateData ''age'' \<noteq> JUndefined
                \<and> (typeof (get updateData ''age'') \<noteq> ''number''
                     \<or> (case get updateData ''age'' of JNum r \<Rightarrow> r < 0 \<or> r > 150 | _ \<Rightarrow> False))
             then errors @ [''Age must be a number between 0 and 150''] else errors)
      in \<lparr>isValid = (length errors = 0), errors = errors\<rparr>)"

text \<open>The two shapes of object literal that the service returns on failure and success.\<close>

definition failure :: "string \<Rightarrow> string \<Rightarrow> envelope" where
  "failure e m = \<lparr>success = False, data = None, error = Some e, message = m\<rparr>"

definition succeed :: "payload \<Rightarrow> string \<Rightarrow> envelope" where
  "succeed x m = \<lparr>success = True, data = Some x, error = None, message = m\<rparr>"

definition svc_getAllUsers :: "db \<Rightarrow> envelope" where
  "svc_getAllUsers d =
     (case findAllUsers d of
        Inr us \<Rightarrow> succeed (UsersData us) ''Users retrieved successfully''
      | Inl e \<Rightarrow> failure e ''Failed to retrieve users'')"

definition svc_getUserById :: "db \<Rightarrow> jsval \<Rightarrow> envelope" where
  "svc_getUserById d id' =
     (if \<not> truthy id' then failure ''User ID is required'' ''Invalid input''
      else
        (case findUserById d id' of
           Inl e \<Rightarrow> failure e ''Failed to retrieve user''
         | Inr None \<Rightarrow> failure ''User not found'' ''User with the specified ID does not exist''
         | Inr (Some user) \<Rightarrow> succeed (UserData user) ''User retrieved successfully''))"

definition svc_createUser :: "db \<Rightarrow> string \<Rightarrow> nat \<Rightarrow> nat \<Rightarrow> jsobj \<Rightarrow> envelope \<times> db" where
  "svc_createUser d uuid tc tu userData =
     (let validationResult = validateUserData userData in
      if \<not> isValid validationResult
      then (failure (join (errors validationResult) '', '') ''Validation failed'', d)
      else
        (case findUserByEmail d (get userData ''email'') of
           Inl e \<Rightarrow> (failure e ''Failed to create user'', d)
         | Inr (Some existingUser) \<Rightarrow>
             (failure ''User with this email already exists'' ''Duplicate email address'', d)
         | Inr None \<Rightarrow>
             (case createUser d uuid tc tu userData of
                (Inl e, d') \<Rightarrow> (failure e ''Failed to create user'', d')
              | (Inr newUser, d') \<Rightarrow> (succeed (UserData newUser) ''User created successfully'', d'))))"

definition svc_updateUser :: "db \<Rightarrow> nat \<Rightarrow> jsval \<Rightarrow> jsobj \<Rightarrow> envelope \<times> db" where
  "svc_updateUser d tu id' updateData =
     (if \<not> truthy id' then (failure ''User ID is required'' ''Invalid input'', d)
      else
        (let validationResult = validateUpdateData updateData in
         if \<not> isValid validationResult
         then (failure (join (errors validationResult) '', '') ''Validation failed'', d)
         else
           (case findUserById d id' of
              Inl e \<Rightarrow> (failure e ''Failed to update user'', d)
            | Inr None \<Rightarrow>
                (failure ''User not found'' ''User with the specified ID does not exist'', d)
            | Inr (Some existingUser) \<Rightarrow>
                (case updateUser d tu id' updateData of
                   (Inl e, d') \<Rightarrow> (failure e ''Failed to update user'', d')
                 | (Inr updatedUser, d') \<Rightarrow>
                     (succeed (UserData updatedUser) ''User updated successfully'', d')))))"

definition svc_deleteUser :: "db \<Rightarrow> jsval \<Rightarrow> envelope \<times> db" where
  "svc_deleteUser d id' =
     (if \<not> truthy id' then (failure ''User ID is required'' ''Invalid input'', d)
      else
        (case findUserById d id' of
           Inl e \<Rightarrow> (failure e ''Failed to delete user'', d)
         | Inr None \<Rightarrow>
             (failure ''User not found'' ''User with the specified ID does not exist'', d)
         | Inr (Some existingUser) \<Rightarrow>
             (case deleteUser d id' of
                (Inl e, d') \<Rightarrow> (failure e ''Failed to delete user'', d')
              | (Inr r, d') \<Rightarrow>
                  (\<lparr>success = True, data = None, error = None,
                    message = ''User deleted successfully''\<rparr>, d'))))"

text \<open>
  \<open>getUserStats\<close>: \<open>users.reduce((sum, user) => sum + user.age, 0) / users.length\<close>
  and \<open>Math.min\<close>, \<open>Math.max\<close> of the ages, which convert every argument to a
  Number.
\<close>

definition computeStats :: "runtime \<Rightarrow> jsobj list \<Rightarrow> stats" where
  "computeStats rt us =
     \<lparr>totalUsers = length us,
      averageAge =
        (if length us > 0
         then fdiv (primToNumber rt
                      (fold (\<lambda>user sum. js_plus rt sum (get user ''age'')) us (PNumber (Finite 0))))
                (length us)
         else Finite 0),
      youngestUser =
        (if length us > 0 then Math_min (map (\<lambda>user. ToNumber rt (get user ''age'')) us)
         else Finite 0),
      oldestUser =
        (if length us > 0 then Math_max (map (\<lambda>user. ToNumber rt (get user ''age'')) us)
         else Finite 0)\<rparr>"

definition svc_getUserStats :: "runtime \<Rightarrow> db \<Rightarrow> envelope" where
  "svc_getUserStats rt d =
     (case findAllUsers d of
        Inr us \<Rightarrow> succeed (StatsData (computeStats rt us)) ''User statistics retrieved successfully''
      | Inl e \<Rightarrow> failure e ''Failed to retrieve user statistics'')"

section \<open>The controller: class UserController\<close>

text \<open>
  \<open>res.status(statusCode).json(body)\<close>. The handler of \<open>PUT /api/users/:id\<close>
  takes \<open>id\<close> from \<open>req.params\<close> and the patch from \<open>req.body\<close>. Its \<open>catch\<close> branch
  answers a service call that throws; \<open>svc_updateUser\<close> returns an envelope on
  every path, so the branch is not taken.
\<close>

record response =
  status :: nat
  body :: envelope

definition ctl_updateUser_respond :: "envelope \<Rightarrow> response" where
  "ctl_updateUser_respond result =
     (if success result
      then \<lparr>status = 200,
            body = \<lparr>success = True, data = data result, error = None, message = message result\<rparr>\<rparr>
      else
        (let statusCode = 400;
             statusCode = (if error result = Some ''User not found'' then 404
                           else if error result = Some ''User with this email already exists'' then 409
                           else statusCode)
         in \<lparr>status = statusCode,
              body = \<lparr>success = False, data = None, error = error result, message = message result\<rparr>\<rparr>))"

definition ctl_updateUser :: "db \<Rightarrow> nat \<Rightarrow> jsval \<Rightarrow> jsobj \<Rightarrow> response \<times> db" where
  "ctl_updateUser d tu id' updateData =
     (case svc_updateUser d tu id' updateData of
        (result, d') \<Rightarrow> (ctl_updateUser_respond result, d'))"

section \<open>Sequences of operations\<close>

text \<open>
  The calls that change the store, with their arguments and with what the
  environment supplies to each (the fresh identifier, the clock readings), and
  the store after a sequence of them. A call that fails leaves the store as
  it was.
\<close>

datatype store_op =
    Connect
  | Disconnect
  | Create string nat nat jsobj
  | Update nat jsval jsobj
  | Delete jsval
  | Clear

fun apply_store_op :: "db \<Rightarrow> store_op \<Rightarrow> db" where
  "apply_store_op d Connect = connect d"
| "apply_store_op d Disconnect = disconnect d"
| "apply_store_op d (Create uuid tc tu userData) = snd (createUser d uuid tc tu userData)"
| "apply_store_op d (Update tu id' updateData) = snd (updateUser d tu id' updateData)"
| "apply_store_op d (Delete id') = snd (deleteUser d id')"
| "apply_store_op d Clear = snd (clearAllData d)"

definition run_store :: "db \<Rightarrow> store_op list \<Rightarrow> db" where
  "run_store d ops = foldl apply_store_op d ops"

definition emails :: "db \<Rightarrow> jsval list" where
  "emails d = map (\<lambda>u. get u ''email'') (map_values (users d))"

text \<open>
  The six operations of the service, as one call each. The data of a creation
  or an update is an object, as \<open>express.json()\<close> delivers the request body.
\<close>

datatype service_op =
    GetAllUsers
  | GetUserById jsval
  | CreateUser string nat nat jsobj
  | UpdateUser nat jsval jsobj
  | DeleteUser jsval
  | GetUserStats runtime

fun service_call :: "db \<Rightarrow> service_op \<Rightarrow> envelope \<times> db" where
  "service_call d GetAllUsers = (svc_getAllUsers d, d)"
| "service_call d (GetUserById id') = (svc_getUserById d id', d)"
| "service_call d (CreateUser uuid tc tu userData) = svc_createUser d uuid tc tu userData"
| "service_call d (UpdateUser tu id' updateData) = svc_updateUser d tu id' updateData"
| "service_call d (DeleteUser id') = svc_deleteUser d id'"
| "service_call d (GetUserStats rt) = (svc_getUserStats rt d, d)"

text \<open>
  A runtime for the examples below. Their listings hold neither a string nor
  a date, so no conversion is called and every runtime gives the same
  statistics.
\<close>

definition exampleRuntime :: runtime where
  "exampleRuntime =
     \<lparr>Number_toString = (\<lambda>r. []), String_toNumber = (\<lambda>s. NaN), Date_toString = (\<lambda>t. [])\<rparr>"

section \<open>A predicate used in the proofs\<close>

text \<open>
  The shape of an envelope: on failure \<open>error\<close> and no \<open>data\<close>; on success no
  \<open>error\<close>, and \<open>data\<close> unless the flag says that the operation returns none.
\<close>

definition envelope_ok :: "bool \<Rightarrow> envelope \<Rightarrow> bool" where
  "envelope_ok del r =
     (if success r then error r = None \<and> (data r = None \<longleftrightarrow> del)
      else error r \<noteq> None \<and> data r = None)"

section \<open>Auxiliary facts\<close>

lemmas store_defs = new_Database_def seedData_def sampleUsers_def connect_def disconnect_def
  findAllUsers_def findUserById_def findUserByEmail_def createUser_def updateUser_def
  deleteUser_def clearAllData_def map_get_def map_has_def map_delete_def map_values_def get_def

lemmas check_defs = isValidEmail_def emailRegex_test_def notSpaceAt_def isSpace_def trim_def

subsection \<open>The Map operations\<close>

lemma map_of_map_set: "map_of (map_set m k v) = (map_of m)(k \<mapsto> v)"
  by (induction m k v rule: map_set.induct) auto

lemma keys_map_set: "fst ` set (map_set m k v) = insert k (fst ` set m)"
  by (induction m k v rule: map_set.induct) auto

lemma map_set_fresh: "k \<notin> fst ` set m \<Longrightarrow> map_set m k v = m @ [(k, v)]"
  by (induction m k v rule: map_set.induct) auto

subsection \<open>The email pattern\<close>

text \<open>
  \<open>emailRegex_test\<close> accepts exactly the strings that the pattern describes:
  three non-empty runs of characters other than spaces and \<open>@\<close>, separated by
  an \<open>@\<close> and a dot.
\<close>

lemma notSpaceAt_dot: "notSpaceAt CHR ''.''"
  by (simp add: notSpaceAt_def isSpace_def)

lemma notSpaceAt_at: "\<not> notSpaceAt CHR ''@''"
  by (simp add: notSpaceAt_def)

lemma emailRegex_test_iff:
  "emailRegex_test s \<longleftrightarrow>
     (\<exists>a b c. s = a @ ''@'' @ b @ ''.'' @ c \<and> a \<noteq> [] \<and> b \<noteq> [] \<and> c \<noteq> []
        \<and> list_all notSpaceAt a \<and> list_all notSpaceAt b \<and> list_all notSpaceAt c)"
proof
  assume t: "emailRegex_test s"
  let ?a = "takeWhile notSpaceAt s"
  from t obtain dom where r: "dropWhile notSpaceAt s = CHR ''@'' # dom"
    and a: "?a \<noteq> []" and d: "list_all notSpaceAt dom" and dot: "CHR ''.'' \<in> set (butlast (tl dom))"
    by (auto simp: emailRegex_test_def Let_def split: list.splits)
  from dot have "tl dom \<noteq> []" by auto
  then obtain d0 t where dom: "dom = d0 # t" and tne: "t \<noteq> []"
    by (cases dom) auto
  from dot dom obtain p q where pq: "butlast t = p @ CHR ''.'' # q"
    by (auto dest: split_list)
  with tne have t: "t = p @ CHR ''.'' # (q @ [last t])"
    by (metis append_butlast_last_id append_Cons append_assoc)
  have s: "s = ?a @ ''@'' @ (d0 # p) @ ''.'' @ (q @ [last t])"
    using takeWhile_dropWhile_id [of notSpaceAt s] r dom t by simp
  have "list_all notSpaceAt ?a" by (simp add: list_all_iff) (meson set_takeWhileD)
  moreover have "list_all notSpaceAt (d0 # p)" "list_all notSpaceAt (q @ [last t])"
    using d dom t by (simp_all add: list_all_iff) (metis Un_iff insert_iff list.simps(15) set_append)+
  ultimately show "\<exists>a b c. s = a @ ''@'' @ b @ ''.'' @ c \<and> a \<noteq> [] \<and> b \<noteq> [] \<and> c \<noteq> []
        \<and> list_all notSpaceAt a \<and> list_all notSpaceAt b \<and> list_all notSpaceAt c"
    using s a by blast
next
  assume "\<exists>a b c. s = a @ ''@'' @ b @ ''.'' @ c \<and> a \<noteq> [] \<and> b \<noteq> [] \<and> c \<noteq> []
        \<and> list_all notSpaceAt a \<and> list_all notSpaceAt b \<and> list_all notSpaceAt c"
  then obtain a b c where s: "s = a @ CHR ''@'' # (b @ CHR ''.'' # c)"
    and ne: "a \<noteq> []" "b \<noteq> []" "c \<noteq> []"
    and ok: "list_all notSpaceAt a" "list_all notSpaceAt b" "list_all notSpaceAt c"
    by auto
  have tw: "takeWhile notSpaceAt s = a"
    using s ok(1) notSpaceAt_at by (simp add: list_all_iff takeWhile_tail)
  have dw: "dropWhile notSpaceAt s = CHR ''@'' # (b @ CHR ''.'' # c)"
    using s ok(1) notSpaceAt_at by (simp add: list_all_iff dropWhile_append3)
  from ne obtain b0 b' where b: "b = b0 # b'" by (cases b) auto
  have "CHR ''.'' \<in> set (butlast (tl (b @ CHR ''.'' # c)))"
    using ne(3) b by (simp add: butlast_append)
  moreover have "list_all notSpaceAt (b @ CHR ''.'' # c)"
    using ok notSpaceAt_dot by simp
  ultimately show "emailRegex_test s"
    using ne(1) by (simp add: emailRegex_test_def tw dw)
qed

section \<open>Creation\<close>

text \<open>
  C1. The claim is that \<open>createUser\<close> of the store gives the new record an
  identifier generated by the store, never one taken from the creation data,
  and distinct from every identifier already stored. The theorem runs it on
  the seeded store with creation data that carries \<open>id: 'u1'\<close>, the identifier
  of John Doe: the call succeeds, the returned record has the identifier \<open>u1\<close>
  and not the generated \<open>u3\<close>, and it replaces John Doe's record. The same
  data passes \<open>validateUserData\<close>, so \<open>createUser\<close> of the service does the same.
\<close>

theorem create_takes_id_from_data:
  "map fst (users (connect (new_Database ''u1'' ''u2''))) = [JStr ''u1'', JStr ''u2'']
   \<and> emails (connect (new_Database ''u1'' ''u2'')) = [JStr ''john@example.com'', JStr ''jane@example.com'']
   \<and> \<not> isl (fst (createUser (connect (new_Database ''u1'' ''u2'')) ''u3'' 5 6
        [''id'' \<mapsto> JStr ''u1'', ''name'' \<mapsto> JStr ''Eve'', ''email'' \<mapsto> JStr ''eve@example.com'',
         ''age'' \<mapsto> JNum 20]))
   \<and> get (projr (fst (createUser (connect (new_Database ''u1'' ''u2'')) ''u3'' 5 6
        [''id'' \<mapsto> JStr ''u1'', ''name'' \<mapsto> JStr ''Eve'', ''email'' \<mapsto> JStr ''eve@example.com'',
         ''age'' \<mapsto> JNum 20]))) ''id'' = JStr ''u1''
   \<and> map fst (users (snd (createUser (connect (new_Database ''u1'' ''u2'')) ''u3'' 5 6
        [''id'' \<mapsto> JStr ''u1'', ''name'' \<mapsto> JStr ''Eve'', ''email'' \<mapsto> JStr ''eve@example.com'',
         ''age'' \<mapsto> JNum 20]))) = [JStr ''u1'', JStr ''u2'']
   \<and> emails (snd (createUser (connect (new_Database ''u1'' ''u2'')) ''u3'' 5 6
        [''id'' \<mapsto> JStr ''u1'', ''name'' \<mapsto> JStr ''Eve'', ''email'' \<mapsto> JStr ''eve@example.com'',
         ''age'' \<mapsto> JNum 20])) = [JStr ''eve@example.com'', JStr ''jane@example.com'']
   \<and> success (fst (svc_createUser (connect (new_Database ''u1'' ''u2'')) ''u3'' 5 6
        [''id'' \<mapsto> JStr ''u1'', ''name'' \<mapsto> JStr ''Eve'', ''email'' \<mapsto> JStr ''eve@example.com'',
         ''age'' \<mapsto> JNum 20]))
   \<and> emails (snd (svc_createUser (connect (new_Database ''u1'' ''u2'')) ''u3'' 5 6
        [''id'' \<mapsto> JStr ''u1'', ''name'' \<mapsto> JStr ''Eve'', ''email'' \<mapsto> JStr ''eve@example.com'',
         ''age'' \<mapsto> JNum 20])) = [JStr ''eve@example.com'', JStr ''jane@example.com'']"
  by (simp add: store_defs emails_def Let_def svc_createUser_def validateUserData_def check_defs
      succeed_def)

text \<open>
  When the creation data has no \<open>id\<close> property and \<open>uuidv4()\<close> returns an
  identifier that is not stored yet, the record gets that identifier and is
  appended to the listing.
\<close>

lemma createUser_generated_id:
  assumes "isConnected d" and "userData ''id'' = None"
    and "find (\<lambda>u. get u ''email'' = get userData ''email'') (map_values (users d)) = None"
    and "JStr uuid \<notin> fst ` set (users d)"
  shows "createUser d uuid tc tu userData
     = (Inr (([''id'' \<mapsto> JStr uuid] ++ userData)(''createdAt'' \<mapsto> JDate tc, ''updatedAt'' \<mapsto> JDate tu)),
        d\<lparr>users := users d @ [(JStr uuid,
             ([''id'' \<mapsto> JStr uuid] ++ userData)(''createdAt'' \<mapsto> JDate tc, ''updatedAt'' \<mapsto> JDate tu))]\<rparr>)"
    and "get (([''id'' \<mapsto> JStr uuid] ++ userData)(''createdAt'' \<mapsto> JDate tc, ''updatedAt'' \<mapsto> JDate tu)) ''id''
      = JStr uuid"
proof -
  show g: "get (([''id'' \<mapsto> JStr uuid] ++ userData)(''createdAt'' \<mapsto> JDate tc, ''updatedAt'' \<mapsto> JDate tu)) ''id''
      = JStr uuid"
    using assms(2) by (simp add: get_def map_add_def)
  show "createUser d uuid tc tu userData
     = (Inr (([''id'' \<mapsto> JStr uuid] ++ userData)(''createdAt'' \<mapsto> JDate tc, ''updatedAt'' \<mapsto> JDate tu)),
        d\<lparr>users := users d @ [(JStr uuid,
             ([''id'' \<mapsto> JStr uuid] ++ userData)(''createdAt'' \<mapsto> JDate tc, ''updatedAt'' \<mapsto> JDate tu))]\<rparr>)"
    using assms(1,3,4) by (simp add: createUser_def Let_def g map_set_fresh)
qed

text \<open>
  C10. When \<open>createUser\<close> of the store accepts the creation data, the
  returned record has \<open>createdAt\<close> and \<open>updatedAt\<close> equal to the two clock
  readings of the call, whatever the creation data holds under these names,
  and this record is the one stored under its identifier.
\<close>

theorem create_stamps_override:
  "createUser d uuid tc tu userData = (Inr newUser, d') \<Longrightarrow>
     newUser ''createdAt'' = Some (JDate tc) \<and> newUser ''updatedAt'' = Some (JDate tu)
   \<and> map_get (users d') (get newUser ''id'') = Some newUser"
  by (auto simp: createUser_def Let_def map_get_def map_of_map_set split: if_splits option.splits)

theorem create_stamps_override_witness:
  "createUser (connect (new_Database ''u1'' ''u2'')) ''u3'' 5 6
     [''name'' \<mapsto> JStr ''Eve'', ''email'' \<mapsto> JStr ''eve@example.com'', ''age'' \<mapsto> JNum 20,
      ''createdAt'' \<mapsto> JDate 1, ''updatedAt'' \<mapsto> JStr ''never'']
     = (Inr [''id'' \<mapsto> JStr ''u3'', ''name'' \<mapsto> JStr ''Eve'', ''email'' \<mapsto> JStr ''eve@example.com'',
             ''age'' \<mapsto> JNum 20, ''createdAt'' \<mapsto> JDate 5, ''updatedAt'' \<mapsto> JDate 6],
        snd (createUser (connect (new_Database ''u1'' ''u2'')) ''u3'' 5 6
          [''name'' \<mapsto> JStr ''Eve'', ''email'' \<mapsto> JStr ''eve@example.com'', ''age'' \<mapsto> JNum 20,
           ''createdAt'' \<mapsto> JDate 1, ''updatedAt'' \<mapsto> JStr ''never'']))
   \<and> [''id'' \<mapsto> JStr ''u3'', ''name'' \<mapsto> JStr ''Eve'', ''email'' \<mapsto> JStr ''eve@example.com'',
             ''age'' \<mapsto> JNum 20, ''createdAt'' \<mapsto> JDate 5, ''updatedAt'' \<mapsto> JDate 6] ''createdAt''
       = Some (JDate 5)
   \<and> map_get (users (snd (createUser (connect (new_Database ''u1'' ''u2'')) ''u3'' 5 6
          [''name'' \<mapsto> JStr ''Eve'', ''email'' \<mapsto> JStr ''eve@example.com'', ''age'' \<mapsto> JNum 20,
           ''createdAt'' \<mapsto> JDate 1, ''updatedAt'' \<mapsto> JStr ''never'']))) (JStr ''u3'')
       = Some [''id'' \<mapsto> JStr ''u3'', ''name'' \<mapsto> JStr ''Eve'', ''email'' \<mapsto> JStr ''eve@example.com'',
             ''age'' \<mapsto> JNum 20, ''createdAt'' \<mapsto> JDate 5, ''updatedAt'' \<mapsto> JDate 6]"
proof -
  let ?d = "connect (new_Database ''u1'' ''u2'')"
  let ?data = "[''name'' \<mapsto> JStr ''Eve'', ''email'' \<mapsto> JStr ''eve@example.com'', ''age'' \<mapsto> JNum 20,
      ''createdAt'' \<mapsto> JDate 1, ''updatedAt'' \<mapsto> JStr ''never'']"
  let ?new = "[''id'' \<mapsto> JStr ''u3'', ''name'' \<mapsto> JStr ''Eve'', ''email'' \<mapsto> JStr ''eve@example.com'',
             ''age'' \<mapsto> JNum 20, ''createdAt'' \<mapsto> JDate 5, ''updatedAt'' \<mapsto> JDate 6]"
  have "fst (createUser ?d ''u3'' 5 6 ?data) = Inr ?new"
    by (simp add: store_defs Let_def)
  then have h: "createUser ?d ''u3'' 5 6 ?data = (Inr ?new, snd (createUser ?d ''u3'' 5 6 ?data))"
    by (metis prod.collapse)
  have g: "get ?new ''id'' = JStr ''u3''" by (simp add: get_def)
  note st = create_stamps_override [OF h]
  have s: "map_get (users (snd (createUser ?d ''u3'' 5 6 ?data))) (JStr ''u3'') = Some ?new"
    using st [THEN conjunct2, THEN conjunct2] by (simp only: g)
  show ?thesis
    by (intro conjI h st [THEN conjunct1] s)
qed

section \<open>Update\<close>

text \<open>
  C2. The claim is that \<open>updateUser\<close> of the store changes only the fields of
  the patch and \<open>updatedAt\<close>, and never \<open>id\<close> and \<open>createdAt\<close>. The theorem runs it
  on the seeded store with the patch \<open>{id: 'x', createdAt: new Date(0)}\<close> for
  John Doe, whose identifier is \<open>u1\<close>: the call succeeds and both properties of
  the updated record are the patch's. With the patch \<open>{id: 'x'}\<close>, which passes
  \<open>validateUpdateData\<close>, \<open>updateUser\<close> of the service succeeds too; afterwards
  the record under the key \<open>u1\<close> has the identifier \<open>x\<close>, and no record is found
  under \<open>x\<close>.
\<close>

theorem update_takes_id_from_patch:
  "get (the (map_get (users (connect (new_Database ''u1'' ''u2''))) (JStr ''u1''))) ''id'' = JStr ''u1''
   \<and> get (the (map_get (users (connect (new_Database ''u1'' ''u2''))) (JStr ''u1''))) ''createdAt''
       = JDate 1672531200000
   \<and> \<not> isl (fst (updateUser (connect (new_Database ''u1'' ''u2'')) 7 (JStr ''u1'')
        [''id'' \<mapsto> JStr ''x'', ''createdAt'' \<mapsto> JDate 0]))
   \<and> get (projr (fst (updateUser (connect (new_Database ''u1'' ''u2'')) 7 (JStr ''u1'')
        [''id'' \<mapsto> JStr ''x'', ''createdAt'' \<mapsto> JDate 0]))) ''id'' = JStr ''x''
   \<and> get (projr (fst (updateUser (connect (new_Database ''u1'' ''u2'')) 7 (JStr ''u1'')
        [''id'' \<mapsto> JStr ''x'', ''createdAt'' \<mapsto> JDate 0]))) ''createdAt'' = JDate 0
   \<and> success (fst (svc_updateUser (connect (new_Database ''u1'' ''u2'')) 7 (JStr ''u1'')
        [''id'' \<mapsto> JStr ''x'']))
   \<and> get (the (map_get (users (snd (svc_updateUser (connect (new_Database ''u1'' ''u2'')) 7
        (JStr ''u1'') [''id'' \<mapsto> JStr ''x'']))) (JStr ''u1''))) ''id'' = JStr ''x''
   \<and> findUserById (snd (svc_updateUser (connect (new_Database ''u1'' ''u2'')) 7
        (JStr ''u1'') [''id'' \<mapsto> JStr ''x''])) (JStr ''x'') = Inr None"
  by (simp add: store_defs Let_def svc_updateUser_def validateUpdateData_def succeed_def)

text \<open>
  For a stored user and a patch that \<open>updateUser\<close> of the store accepts, the
  updated record agrees with the stored one on every property that the patch
  does not have, except \<open>updatedAt\<close>, which is the clock reading, and it is the
  record stored. On a connected store the empty patch is accepted and
  changes \<open>updatedAt\<close> only.
\<close>

lemma updateUser_frame:
  "map_get (users d) i = Some user \<Longrightarrow>
     (\<forall>updatedUser d'. updateUser d tu i p = (Inr updatedUser, d') \<longrightarrow>
        (\<forall>f. p f = None \<and> f \<noteq> ''updatedAt'' \<longrightarrow> updatedUser f = user f)
        \<and> updatedUser ''updatedAt'' = Some (JDate tu)
        \<and> (p ''id'' = None \<longrightarrow> get updatedUser ''id'' = get user ''id'')
        \<and> (p ''createdAt'' = None \<longrightarrow> get updatedUser ''createdAt'' = get user ''createdAt'')
        \<and> map_get (users d') i = Some updatedUser)
   \<and> (isConnected d \<longrightarrow>
        updateUser d tu i Map.empty
          = (Inr (user(''updatedAt'' \<mapsto> JDate tu)),
             d\<lparr>users := map_set (users d) i (user(''updatedAt'' \<mapsto> JDate tu))\<rparr>))"
  by (auto simp: updateUser_def Let_def map_get_def map_of_map_set get_def map_add_def
      split: if_splits option.splits)

lemma updateUser_frame_example:
  "map_get (users (connect (new_Database ''u1'' ''u2''))) (JStr ''u1'')
     = Some [''id'' \<mapsto> JStr ''u1'', ''name'' \<mapsto> JStr ''John Doe'',
             ''email'' \<mapsto> JStr ''john@example.com'', ''age'' \<mapsto> JNum 30,
             ''createdAt'' \<mapsto> JDate 1672531200000, ''updatedAt'' \<mapsto> JDate 1672531200000]
   \<and> fst (updateUser (connect (new_Database ''u1'' ''u2'')) 7 (JStr ''u1'') [''age'' \<mapsto> JNum 31])
     = Inr [''id'' \<mapsto> JStr ''u1'', ''name'' \<mapsto> JStr ''John Doe'',
             ''email'' \<mapsto> JStr ''john@example.com'', ''createdAt'' \<mapsto> JDate 1672531200000,
             ''age'' \<mapsto> JNum 31, ''updatedAt'' \<mapsto> JDate 7]
   \<and> isConnected (connect (new_Database ''u1'' ''u2''))
   \<and> fst (updateUser (connect (new_Database ''u1'' ''u2'')) 7 (JStr ''u1'') Map.empty)
     = Inr [''id'' \<mapsto> JStr ''u1'', ''name'' \<mapsto> JStr ''John Doe'',
             ''email'' \<mapsto> JStr ''john@example.com'', ''age'' \<mapsto> JNum 30,
             ''createdAt'' \<mapsto> JDate 1672531200000, ''updatedAt'' \<mapsto> JDate 7]
   \<and> map_get (users (snd (updateUser (connect (new_Database ''u1'' ''u2'')) 7 (JStr ''u1'') [''age'' \<mapsto> JNum 31])))
        (JStr ''u1'')
     = Some [''id'' \<mapsto> JStr ''u1'', ''name'' \<mapsto> JStr ''John Doe'',
             ''email'' \<mapsto> JStr ''john@example.com'', ''createdAt'' \<mapsto> JDate 1672531200000,
             ''age'' \<mapsto> JNum 31, ''updatedAt'' \<mapsto> JDate 7]"
proof -
  let ?d = "connect (new_Database ''u1'' ''u2'')"
  let ?john = "[''id'' \<mapsto> JStr ''u1'', ''name'' \<mapsto> JStr ''John Doe'',
             ''email'' \<mapsto> JStr ''john@example.com'', ''age'' \<mapsto> JNum 30,
             ''createdAt'' \<mapsto> JDate 1672531200000, ''updatedAt'' \<mapsto> JDate 1672531200000]"
  let ?new = "[''id'' \<mapsto> JStr ''u1'', ''name'' \<mapsto> JStr ''John Doe'',
             ''email'' \<mapsto> JStr ''john@example.com'', ''createdAt'' \<mapsto> JDate 1672531200000,
             ''age'' \<mapsto> JNum 31, ''updatedAt'' \<mapsto> JDate 7]"
  have h: "map_get (users ?d) (JStr ''u1'') = Some ?john"
    by (simp add: store_defs)
  have c: "isConnected ?d" by (simp add: connect_def)
  have n: "fst (updateUser ?d 7 (JStr ''u1'') [''age'' \<mapsto> JNum 31]) = Inr ?new"
    by (simp add: store_defs Let_def)
  then have u: "updateUser ?d 7 (JStr ''u1'') [''age'' \<mapsto> JNum 31]
      = (Inr ?new, snd (updateUser ?d 7 (JStr ''u1'') [''age'' \<mapsto> JNum 31]))"
    by (simp add: prod_eq_iff)
  note fr = updateUser_frame [OF h, of 7 "[''age'' \<mapsto> JNum 31]", THEN conjunct1, THEN spec, THEN spec, THEN mp, OF u]
  note s = fr [THEN conjunct2, THEN conjunct2, THEN conjunct2, THEN conjunct2]
  note e0 = updateUser_frame [OF h, of 7 Map.empty, THEN conjunct2, THEN mp, OF c]
  have e: "fst (updateUser ?d 7 (JStr ''u1'') Map.empty) = Inr (?john(''updatedAt'' \<mapsto> JDate 7))"
    by (simp only: e0 fst_conv)
  have e': "?john(''updatedAt'' \<mapsto> JDate 7) = [''id'' \<mapsto> JStr ''u1'', ''name'' \<mapsto> JStr ''John Doe'',
             ''email'' \<mapsto> JStr ''john@example.com'', ''age'' \<mapsto> JNum 30,
             ''createdAt'' \<mapsto> JDate 1672531200000, ''updatedAt'' \<mapsto> JDate 7]"
    by simp
  show ?thesis
    using h n c e s unfolding e' by (intro conjI)
qed

section \<open>Validation\<close>

subsection \<open>The name check\<close>

lemma name_check_create:
  "''Name must be at least 2 characters long'' \<in> set (errors (validateUserData userData))
     \<longleftrightarrow> \<not> (\<exists>s. get userData ''name'' = JStr s \<and> 2 \<le> length (trim s))"
proof (cases "get userData ''name''")
  case (JStr s)
  have "length (trim s) \<ge> 2 \<Longrightarrow> s \<noteq> []" by (auto simp: trim_def)
  with JStr show ?thesis by (auto simp: validateUserData_def Let_def)
qed (auto simp: validateUserData_def Let_def)

lemma Validator_isValidName_iff:
  "Validator_isValidName v \<longleftrightarrow> (\<exists>s. v = JStr s \<and> 2 \<le> length (trim s) \<and> length (trim s) \<le> 100)"
proof (cases v)
  case (JStr s)
  have "length (trim s) \<ge> 2 \<Longrightarrow> s \<noteq> []" by (auto simp: trim_def)
  with JStr show ?thesis by (auto simp: Validator_isValidName_def Let_def)
qed (auto simp: Validator_isValidName_def)

lemma svc_createUser_invalid:
  "errors (validateUserData userData) \<noteq> [] \<Longrightarrow>
   svc_createUser d uuid tc tu userData
     = (failure (join (errors (validateUserData userData)) '', '') ''Validation failed'', d)"
  by (simp add: svc_createUser_def Let_def validateUserData_def)

text \<open>
  C3, amended. The name check of \<open>validateUserData\<close> accepts a value exactly
  when it is a string whose trimmed length is at least 2: there is no upper
  bound. When it reports the name error, \<open>createUser\<close> of the service fails
  with the validation-failed envelope and leaves the store alone. The bound
  of 100 is that of \<open>Validator.isValidName\<close>, which accepts exactly the strings
  of trimmed length 2 to 100 and which the service does not call.
\<close>

theorem name_check_lower_bound_only:
  "(''Name must be at least 2 characters long'' \<in> set (errors (validateUserData userData))
      \<longleftrightarrow> \<not> (\<exists>s. get userData ''name'' = JStr s \<and> 2 \<le> length (trim s)))
   \<and> (''Name must be at least 2 characters long'' \<in> set (errors (validateUserData userData))
      \<longrightarrow> svc_createUser d uuid tc tu userData
            = (failure (join (errors (validateUserData userData)) '', '') ''Validation failed'', d))
   \<and> (Validator_isValidName v
      \<longleftrightarrow> (\<exists>s. v = JStr s \<and> 2 \<le> length (trim s) \<and> length (trim s) \<le> 100))"
proof (intro conjI impI)
  assume "''Name must be at least 2 characters long'' \<in> set (errors (validateUserData userData))"
  then have "errors (validateUserData userData) \<noteq> []" by auto
  then show "svc_createUser d uuid tc tu userData
            = (failure (join (errors (validateUserData userData)) '', '') ''Validation failed'', d)"
    by (rule svc_createUser_invalid)
qed (rule name_check_create, rule Validator_isValidName_iff)

theorem name_check_lower_bound_only_witness:
  "''Name must be at least 2 characters long'' \<in> set (errors (validateUserData [''name'' \<mapsto> JStr '' A '']))
   \<and> svc_createUser (connect (new_Database ''u1'' ''u2'')) ''u3'' 5 5 [''name'' \<mapsto> JStr '' A '']
       = (failure ''Name must be at least 2 characters long, Valid email is required, Age must be a number between 0 and 150''
            ''Validation failed'', connect (new_Database ''u1'' ''u2''))
   \<and> ''Name must be at least 2 characters long'' \<notin> set (errors (validateUserData [''name'' \<mapsto> JStr (replicate 101 CHR ''a'')]))
   \<and> \<not> Validator_isValidName (JStr (replicate 101 CHR ''a''))
   \<and> Validator_isValidName (JStr (replicate 100 CHR ''a''))"
proof -
  have t1: "trim '' A '' = ''A''" by (simp add: trim_def isSpace_def)
  have ta: "\<And>n. trim (replicate n CHR ''a'') = replicate n CHR ''a''"
    by (simp add: trim_def isSpace_def dropWhile_eq_Nil_conv)
  have e: "errors (validateUserData [''name'' \<mapsto> JStr '' A ''])
      = [''Name must be at least 2 characters long'', ''Valid email is required'',
         ''Age must be a number between 0 and 150'']"
    by (simp add: validateUserData_def get_def t1)
  show ?thesis
    using name_check_lower_bound_only [of "[''name'' \<mapsto> JStr '' A '']"
        "connect (new_Database ''u1'' ''u2'')" "''u3''" 5 5 "JStr (replicate 101 CHR ''a'')"]
      name_check_lower_bound_only [of "[''name'' \<mapsto> JStr (replicate 101 CHR ''a'')]"
        "connect (new_Database ''u1'' ''u2'')" "''u3''" 5 5 "JStr (replicate 100 CHR ''a'')"]
    by (simp add: e get_def t1 ta)
qed

text \<open>
  As stated, C3 fails for a name of 101 letters: \<open>validateUserData\<close> reports no
  error and \<open>createUser\<close> of the service succeeds.
\<close>

theorem name_upper_bound_counterexample:
  "length (trim (replicate 101 CHR ''a'')) = 101
   \<and> errors (validateUserData [''name'' \<mapsto> JStr (replicate 101 CHR ''a''),
        ''email'' \<mapsto> JStr ''eve@example.com'', ''age'' \<mapsto> JNum 20]) = []
   \<and> success (fst (svc_createUser (connect (new_Database ''u1'' ''u2'')) ''u3'' 5 5
        [''name'' \<mapsto> JStr (replicate 101 CHR ''a''),
         ''email'' \<mapsto> JStr ''eve@example.com'', ''age'' \<mapsto> JNum 20]))"
proof -
  have ta: "trim (replicate 101 CHR ''a'') = replicate 101 CHR ''a''"
    by (simp add: trim_def isSpace_def dropWhile_eq_Nil_conv)
  have v: "validateUserData [''name'' \<mapsto> JStr (replicate 101 CHR ''a''),
        ''email'' \<mapsto> JStr ''eve@example.com'', ''age'' \<mapsto> JNum 20] = \<lparr>isValid = True, errors = []\<rparr>"
    by (simp add: validateUserData_def get_def ta isValidEmail_def emailRegex_test_def notSpaceAt_def isSpace_def)
  show ?thesis
    by (simp add: ta v svc_createUser_def store_defs Let_def succeed_def)
qed

subsection \<open>Validation before the existence check\<close>

lemma errors_update_nonempty:
  "(get p ''name'' \<noteq> JUndefined \<and> \<not> (\<exists>s. get p ''name'' = JStr s \<and> 2 \<le> length (trim s)))
    \<or> (get p ''email'' \<noteq> JUndefined \<and> \<not> isValidEmail (get p ''email''))
    \<or> (get p ''age'' \<noteq> JUndefined \<and> \<not> (\<exists>r. get p ''age'' = JNum r \<and> 0 \<le> r \<and> r \<le> 150))
   \<longleftrightarrow> \<not> isValid (validateUpdateData p)"
proof -
  have n: "(get p ''name'' \<noteq> JUndefined \<and> \<not> (\<exists>s. get p ''name'' = JStr s \<and> 2 \<le> length (trim s)))
     \<longleftrightarrow> (get p ''name'' \<noteq> JUndefined
                \<and> (typeof (get p ''name'') \<noteq> ''string''
                     \<or> (case get p ''name'' of JStr s \<Rightarrow> length (trim s) < 2 | _ \<Rightarrow> False)))"
    by (cases "get p ''name''") auto
  have a: "(get p ''age'' \<noteq> JUndefined \<and> \<not> (\<exists>r. get p ''age'' = JNum r \<and> 0 \<le> r \<and> r \<le> 150))
     \<longleftrightarrow> (get p ''age'' \<noteq> JUndefined
                \<and> (typeof (get p ''age'') \<noteq> ''number''
                     \<or> (case get p ''age'' of JNum r \<Rightarrow> r < 0 \<or> r > 150 | _ \<Rightarrow> False)))"
    by (cases "get p ''age''") auto
  show ?thesis
    unfolding n a by (simp add: validateUpdateData_def Let_def)
qed

text \<open>
  C6. Let the identifier be truthy. If the patch has a property \<open>name\<close>,
  \<open>email\<close> or \<open>age\<close> that is not \<open>undefined\<close> and fails the check that
  \<open>validateUpdateData\<close> makes of it, then \<open>updateUser\<close> of the service returns
  the validation-failed envelope, the same for every store (connected or
  not, with or without that identifier) and with the store unchanged: the
  store is not consulted. And whenever the not-found envelope is returned,
  the patch has passed validation and the lookup has found nothing.
\<close>

theorem validation_precedes_existence:
  "truthy i \<Longrightarrow>
   ((get p ''name'' \<noteq> JUndefined \<and> \<not> (\<exists>s. get p ''name'' = JStr s \<and> 2 \<le> length (trim s)))
     \<or> (get p ''email'' \<noteq> JUndefined \<and> \<not> isValidEmail (get p ''email''))
     \<or> (get p ''age'' \<noteq> JUndefined \<and> \<not> (\<exists>r. get p ''age'' = JNum r \<and> 0 \<le> r \<and> r \<le> 150))
    \<longrightarrow> (\<forall>d tu. svc_updateUser d tu i p
              = (failure (join (errors (validateUpdateData p)) '', '') ''Validation failed'', d)))
   \<and> (fst (svc_updateUser d tu i p)
         = failure ''User not found'' ''User with the specified ID does not exist''
      \<longrightarrow> isValid (validateUpdateData p) \<and> findUserById d i = Inr None)"
proof (intro conjI impI allI)
  fix d tu
  assume "truthy i" and bad:
    "(get p ''name'' \<noteq> JUndefined \<and> \<not> (\<exists>s. get p ''name'' = JStr s \<and> 2 \<le> length (trim s)))
     \<or> (get p ''email'' \<noteq> JUndefined \<and> \<not> isValidEmail (get p ''email''))
     \<or> (get p ''age'' \<noteq> JUndefined \<and> \<not> (\<exists>r. get p ''age'' = JNum r \<and> 0 \<le> r \<and> r \<le> 150))"
  from bad have "\<not> isValid (validateUpdateData p)"
    using errors_update_nonempty [of p] by blast
  with \<open>truthy i\<close> show "svc_updateUser d tu i p
      = (failure (join (errors (validateUpdateData p)) '', '') ''Validation failed'', d)"
    by (simp add: svc_updateUser_def Let_def)
next
  assume t: "truthy i" and nf: "fst (svc_updateUser d tu i p)
         = failure ''User not found'' ''User with the specified ID does not exist''"
  show "isValid (validateUpdateData p)"
    using t nf by (auto simp: svc_updateUser_def Let_def failure_def split: if_splits)
  show "findUserById d i = Inr None"
    using t nf
    by (auto simp: svc_updateUser_def Let_def failure_def succeed_def
        split: if_splits sum.splits option.splits prod.splits)
qed

theorem validation_precedes_existence_witness:
  "truthy (JStr ''nobody'')
   \<and> svc_updateUser (new_Database ''u1'' ''u2'') 5 (JStr ''nobody'') [''name'' \<mapsto> JStr ''A'', ''age'' \<mapsto> JNum 200]
       = (failure ''Name must be at least 2 characters long, Age must be a number between 0 and 150''
            ''Validation failed'', new_Database ''u1'' ''u2'')
   \<and> fst (svc_updateUser (connect (new_Database ''u1'' ''u2'')) 5 (JStr ''nobody'') [''name'' \<mapsto> JStr ''Al''])
       = failure ''User not found'' ''User with the specified ID does not exist''
   \<and> isValid (validateUpdateData [''name'' \<mapsto> JStr ''Al''])"
proof -
  have t: "truthy (JStr ''nobody'')" by simp
  have tr: "trim ''A'' = ''A''" "trim ''Al'' = ''Al''" by (simp_all add: trim_def isSpace_def)
  have bad: "get [''name'' \<mapsto> JStr ''A'', ''age'' \<mapsto> JNum 200] ''name'' \<noteq> JUndefined
      \<and> \<not> (\<exists>s. get [''name'' \<mapsto> JStr ''A'', ''age'' \<mapsto> JNum 200] ''name'' = JStr s \<and> 2 \<le> length (trim s))"
    by (simp add: get_def tr)
  have e: "errors (validateUpdateData [''name'' \<mapsto> JStr ''A'', ''age'' \<mapsto> JNum 200])
      = [''Name must be at least 2 characters long'', ''Age must be a number between 0 and 150'']"
    by (simp add: validateUpdateData_def get_def tr)
  have nf: "fst (svc_updateUser (connect (new_Database ''u1'' ''u2'')) 5 (JStr ''nobody'') [''name'' \<mapsto> JStr ''Al''])
       = failure ''User not found'' ''User with the specified ID does not exist''"
    by (simp add: svc_updateUser_def validateUpdateData_def tr store_defs)
  show ?thesis
    using t bad e nf
      validation_precedes_existence [OF t, of "[''name'' \<mapsto> JStr ''A'', ''age'' \<mapsto> JNum 200]"
        "new_Database ''u1'' ''u2''" 5]
      validation_precedes_existence [OF t, of "[''name'' \<mapsto> JStr ''Al'']"
        "connect (new_Database ''u1'' ''u2'')" 5]
    by simp
qed

section \<open>The result envelope\<close>

lemma ok_failure: "envelope_ok del (failure e m)"
  by (simp add: envelope_ok_def failure_def)

lemma ok_succeed: "envelope_ok False (succeed x m)"
  by (simp add: envelope_ok_def succeed_def)

lemma ok_getAllUsers: "envelope_ok False (svc_getAllUsers d)"
  by (simp add: svc_getAllUsers_def ok_failure ok_succeed split: sum.splits)

lemma ok_getUserById: "envelope_ok False (svc_getUserById d i)"
  by (simp add: svc_getUserById_def ok_failure ok_succeed split: sum.splits option.splits)

lemma ok_getUserStats: "envelope_ok False (svc_getUserStats rt d)"
  by (simp add: svc_getUserStats_def ok_failure ok_succeed split: sum.splits)

lemma ok_createUser: "envelope_ok False (fst (svc_createUser d uuid tc tu userData))"
  by (simp add: svc_createUser_def Let_def ok_failure ok_succeed
      split: sum.splits option.splits prod.splits)

lemma ok_updateUser: "envelope_ok False (fst (svc_updateUser d tu i p))"
  by (simp add: svc_updateUser_def Let_def ok_failure ok_succeed
      split: sum.splits option.splits prod.splits)

lemma ok_deleteUser: "envelope_ok True (fst (svc_deleteUser d i))"
  by (simp add: svc_deleteUser_def ok_failure split: sum.splits option.splits prod.splits)
     (simp add: envelope_ok_def)

text \<open>
  C4, amended. For every operation of the service and every input: a failure
  envelope has \<open>error\<close> and no \<open>data\<close>; a success envelope has no \<open>error\<close>, and it
  has \<open>data\<close> unless the operation is \<open>deleteUser\<close>, whose success envelope has
  neither.
\<close>

theorem envelope_data_error:
  "(\<not> success (fst (service_call d op)) \<longrightarrow>
      error (fst (service_call d op)) \<noteq> None \<and> data (fst (service_call d op)) = None)
   \<and> (success (fst (service_call d op)) \<longrightarrow>
      error (fst (service_call d op)) = None
      \<and> (data (fst (service_call d op)) = None \<longleftrightarrow> (\<exists>i. op = DeleteUser i)))"
proof (cases op)
  case GetAllUsers
  then show ?thesis using ok_getAllUsers [of d] by (simp add: envelope_ok_def split: if_splits)
next
  case (GetUserById i)
  then show ?thesis using ok_getUserById [of d i] by (simp add: envelope_ok_def split: if_splits)
next
  case (CreateUser uuid tc tu userData)
  then show ?thesis using ok_createUser [of d uuid tc tu userData]
    by (simp add: envelope_ok_def split: if_splits)
next
  case (UpdateUser tu i p)
  then show ?thesis using ok_updateUser [of d tu i p]
    by (simp add: envelope_ok_def split: if_splits)
next
  case (DeleteUser i)
  then show ?thesis using ok_deleteUser [of d i]
    by (simp add: envelope_ok_def split: if_splits)
next
  case (GetUserStats rt)
  then show ?thesis using ok_getUserStats [of rt d] by (simp add: envelope_ok_def split: if_splits)
qed

theorem envelope_data_error_witness:
  "\<not> success (fst (service_call (new_Database ''u1'' ''u2'') GetAllUsers))
   \<and> error (fst (service_call (new_Database ''u1'' ''u2'') GetAllUsers)) = Some ''Database not connected''
   \<and> data (fst (service_call (new_Database ''u1'' ''u2'') GetAllUsers)) = None
   \<and> success (fst (service_call (connect (new_Database ''u1'' ''u2'')) (GetUserById (JStr ''u1''))))
   \<and> error (fst (service_call (connect (new_Database ''u1'' ''u2'')) (GetUserById (JStr ''u1'')))) = None
   \<and> data (fst (service_call (connect (new_Database ''u1'' ''u2'')) (GetUserById (JStr ''u1'')))) \<noteq> None"
proof -
  have a: "\<not> success (fst (service_call (new_Database ''u1'' ''u2'') GetAllUsers))"
    by (simp add: svc_getAllUsers_def store_defs failure_def)
  have b: "error (fst (service_call (new_Database ''u1'' ''u2'') GetAllUsers)) = Some ''Database not connected''"
    by (simp add: svc_getAllUsers_def store_defs failure_def)
  have c: "success (fst (service_call (connect (new_Database ''u1'' ''u2'')) (GetUserById (JStr ''u1''))))"
    by (simp add: svc_getUserById_def store_defs succeed_def)
  show ?thesis
    using a b c envelope_data_error [of "new_Database ''u1'' ''u2''" GetAllUsers]
      envelope_data_error [of "connect (new_Database ''u1'' ''u2'')" "GetUserById (JStr ''u1'')"]
    by simp
qed

text \<open>
  As stated, with exactly one of \<open>data\<close> and \<open>error\<close> in every envelope, C4 fails
  for the deletion of a seeded user.
\<close>

theorem delete_envelope_counterexample:
  "fst (service_call (connect (new_Database ''u1'' ''u2'')) (DeleteUser (JStr ''u1'')))
     = \<lparr>success = True, data = None, error = None, message = ''User deleted successfully''\<rparr>"
  by (simp add: svc_deleteUser_def store_defs)

section \<open>Uniqueness of emails\<close>

text \<open>
  C5. The claim is that no sequence of operations of the store leaves two
  records with the same email. \<open>updateUser\<close> of the store runs its duplicate
  test only when the email of the patch is truthy. The theorem runs two
  updates with the patch \<open>{email: ''}\<close> on the seeded store: both are accepted
  and both users have the empty email afterwards. The patch
  \<open>{email: undefined}\<close> passes \<open>validateUpdateData\<close> as well, and two such
  updates through the service leave both users with the email \<open>undefined\<close>.
\<close>

theorem update_skips_duplicate_test:
  "emails (connect (new_Database ''u1'' ''u2'')) = [JStr ''john@example.com'', JStr ''jane@example.com'']
   \<and> \<not> isl (fst (updateUser (connect (new_Database ''u1'' ''u2'')) 5 (JStr ''u1'')
        [''email'' \<mapsto> JStr []]))
   \<and> \<not> isl (fst (updateUser
        (snd (updateUser (connect (new_Database ''u1'' ''u2'')) 5 (JStr ''u1'') [''email'' \<mapsto> JStr []]))
        6 (JStr ''u2'') [''email'' \<mapsto> JStr []]))
   \<and> emails (run_store (new_Database ''u1'' ''u2'')
        [Connect, Update 5 (JStr ''u1'') [''email'' \<mapsto> JStr []],
         Update 6 (JStr ''u2'') [''email'' \<mapsto> JStr []]]) = [JStr [], JStr []]
   \<and> success (fst (svc_updateUser (connect (new_Database ''u1'' ''u2'')) 5 (JStr ''u1'')
        [''email'' \<mapsto> JUndefined]))
   \<and> success (fst (svc_updateUser
        (snd (svc_updateUser (connect (new_Database ''u1'' ''u2'')) 5 (JStr ''u1'')
           [''email'' \<mapsto> JUndefined]))
        6 (JStr ''u2'') [''email'' \<mapsto> JUndefined]))
   \<and> emails (snd (svc_updateUser
        (snd (svc_updateUser (connect (new_Database ''u1'' ''u2'')) 5 (JStr ''u1'')
           [''email'' \<mapsto> JUndefined]))
        6 (JStr ''u2'') [''email'' \<mapsto> JUndefined])) = [JUndefined, JUndefined]"
  by (simp add: run_store_def emails_def store_defs Let_def svc_updateUser_def
      validateUpdateData_def succeed_def)

section \<open>Status codes of the update handler\<close>

lemma svc_updateUser_store_duplicate:
  assumes "truthy i" "isValid (validateUpdateData p)"
    and "updateUser d tu i p = (Inl ''User with this email already exists'', d')"
  shows "svc_updateUser d tu i p
     = (failure ''User with this email already exists'' ''Failed to update user'', d')"
proof -
  from assms(3) have c: "isConnected d"
    by (auto simp: updateUser_def split: if_splits)
  from assms(3) c obtain u where "map_get (users d) i = Some u"
    by (auto simp: updateUser_def Let_def split: option.splits if_splits)
  with c have "findUserById d i = Inr (Some u)" by (simp add: findUserById_def)
  with assms show ?thesis by (simp add: svc_updateUser_def Let_def)
qed

text \<open>
  C7. For every failure envelope that \<open>updateUser\<close> of the service returns,
  the handler answers 404 exactly when the error text is \<open>User not found\<close>, 409
  exactly when it is \<open>User with this email already exists\<close>, and 400 exactly
  when it is neither. So when the store rejects the update for a duplicate
  email, the answer is 409 with the message \<open>Failed to update user\<close>.
\<close>

theorem update_status_codes:
  "(\<not> success (fst (svc_updateUser d tu i p)) \<longrightarrow>
      (status (fst (ctl_updateUser d tu i p)) = 404
         \<longleftrightarrow> error (fst (svc_updateUser d tu i p)) = Some ''User not found'')
    \<and> (status (fst (ctl_updateUser d tu i p)) = 409
         \<longleftrightarrow> error (fst (svc_updateUser d tu i p)) = Some ''User with this email already exists'')
    \<and> (status (fst (ctl_updateUser d tu i p)) = 400
         \<longleftrightarrow> error (fst (svc_updateUser d tu i p)) \<noteq> Some ''User not found''
             \<and> error (fst (svc_updateUser d tu i p)) \<noteq> Some ''User with this email already exists''))
   \<and> (truthy i \<and> isValid (validateUpdateData p)
       \<and> updateUser d tu i p = (Inl ''User with this email already exists'', d) \<longrightarrow>
      ctl_updateUser d tu i p
        = (\<lparr>status = 409,
             body = \<lparr>success = False, data = None,
                     error = Some ''User with this email already exists'',
                     message = ''Failed to update user''\<rparr>\<rparr>, d))"
proof (intro conjI impI)
  assume "truthy i \<and> isValid (validateUpdateData p)
       \<and> updateUser d tu i p = (Inl ''User with this email already exists'', d)"
  then have "svc_updateUser d tu i p
     = (failure ''User with this email already exists'' ''Failed to update user'', d)"
    by (simp add: svc_updateUser_store_duplicate)
  then show "ctl_updateUser d tu i p
        = (\<lparr>status = 409,
             body = \<lparr>success = False, data = None,
                     error = Some ''User with this email already exists'',
                     message = ''Failed to update user''\<rparr>\<rparr>, d)"
    by (simp add: ctl_updateUser_def ctl_updateUser_respond_def failure_def)
qed (cases "svc_updateUser d tu i p"; simp add: ctl_updateUser_def ctl_updateUser_respond_def Let_def)+

theorem update_status_codes_witness:
  "\<not> success (fst (svc_updateUser (connect (new_Database ''u1'' ''u2'')) 5 (JStr ''u1'')
        [''email'' \<mapsto> JStr ''jane@example.com'']))
   \<and> updateUser (connect (new_Database ''u1'' ''u2'')) 5 (JStr ''u1'')
        [''email'' \<mapsto> JStr ''jane@example.com'']
        = (Inl ''User with this email already exists'', connect (new_Database ''u1'' ''u2''))
   \<and> ctl_updateUser (connect (new_Database ''u1'' ''u2'')) 5 (JStr ''u1'')
        [''email'' \<mapsto> JStr ''jane@example.com'']
        = (\<lparr>status = 409,
             body = \<lparr>success = False, data = None,
                     error = Some ''User with this email already exists'',
                     message = ''Failed to update user''\<rparr>\<rparr>, connect (new_Database ''u1'' ''u2''))
   \<and> error (fst (svc_updateUser (connect (new_Database ''u1'' ''u2'')) 5 (JStr ''u1'')
        [''email'' \<mapsto> JStr ''jane@example.com''])) = Some ''User with this email already exists''"
proof -
  let ?d = "connect (new_Database ''u1'' ''u2'')"
  let ?p = "[''email'' \<mapsto> JStr ''jane@example.com'']"
  have v: "isValid (validateUpdateData ?p)"
    by (simp add: validateUpdateData_def get_def check_defs)
  have u: "updateUser ?d 5 (JStr ''u1'') ?p = (Inl ''User with this email already exists'', ?d)"
    by (simp add: store_defs)
  have "svc_updateUser ?d 5 (JStr ''u1'') ?p
      = (failure ''User with this email already exists'' ''Failed to update user'', ?d)"
    using v u by (intro svc_updateUser_store_duplicate) simp_all
  then have s: "\<not> success (fst (svc_updateUser ?d 5 (JStr ''u1'') ?p))"
    and e: "error (fst (svc_updateUser ?d 5 (JStr ''u1'') ?p)) = Some ''User with this email already exists''"
    by (simp_all add: failure_def)
  show ?thesis
    using s e u v update_status_codes [of ?d 5 "JStr ''u1''" ?p] by simp
qed

section \<open>The store while disconnected\<close>

text \<open>
  C8. Each of the seven data operations of the store, called while the store
  is disconnected, fails with the error \<open>Database not connected\<close>, and the
  stored records are the same afterwards.
\<close>

theorem disconnected_operations_fail:
  "\<not> isConnected d \<Longrightarrow>
     findAllUsers d = Inl ''Database not connected''
   \<and> findUserById d i = Inl ''Database not connected''
   \<and> findUserByEmail d e = Inl ''Database not connected''
   \<and> createUser d uuid tc tu userData = (Inl ''Database not connected'', d)
   \<and> updateUser d tu i updateData = (Inl ''Database not connected'', d)
   \<and> deleteUser d i = (Inl ''Database not connected'', d)
   \<and> clearAllData d = (Inl ''Database not connected'', d)"
  by (simp add: findAllUsers_def findUserById_def findUserByEmail_def createUser_def
      updateUser_def deleteUser_def clearAllData_def)

theorem disconnected_operations_fail_witness:
  "\<not> isConnected (new_Database ''u1'' ''u2'')
   \<and> findAllUsers (new_Database ''u1'' ''u2'') = Inl ''Database not connected''
   \<and> createUser (new_Database ''u1'' ''u2'') ''u3'' 5 5 [''email'' \<mapsto> JStr ''a@b.c'']
       = (Inl ''Database not connected'', new_Database ''u1'' ''u2'')
   \<and> clearAllData (new_Database ''u1'' ''u2'') = (Inl ''Database not connected'', new_Database ''u1'' ''u2'')"
proof -
  have h: "\<not> isConnected (new_Database ''u1'' ''u2'')"
    by (simp add: new_Database_def seedData_def)
  show ?thesis
    using h disconnected_operations_fail [OF h, of JNull JNull "''u3''" 5 5 "[''email'' \<mapsto> JStr ''a@b.c'']" "Map.empty"]
    by simp
qed

section \<open>Statistics\<close>

subsection \<open>Rounding\<close>

text \<open>
  \<open>roundTiesToEven\<close> is within one half of its argument, so \<open>fl x\<close> is within half
  an \<open>ulp\<close> of \<open>x\<close>; an integer of magnitude up to \<open>2 ^ 53\<close> is a double.
\<close>

lemma roundTiesToEven_near: "\<bar>of_int (roundTiesToEven y) - y\<bar> \<le> 1 / 2"
  unfolding roundTiesToEven_def Let_def by (auto simp: abs_if) linarith+

lemma roundTiesToEven_of_int [simp]: "roundTiesToEven (of_int m) = m"
  by (simp add: roundTiesToEven_def)

lemma ilog2_bounds_ge1:
  assumes "1 \<le> x"
  shows "0 \<le> ilog2 x" and "2 ^ nat (ilog2 x) \<le> x" and "x < 2 ^ (nat (ilog2 x) + 1)"
proof -
  let ?n = "nat \<lfloor>x\<rfloor>"
  have n: "0 < ?n" using assms by simp
  from floorlog_bounds [where b = 2 and x = ?n] n
  have b: "2 ^ (floorlog 2 ?n - 1) \<le> ?n" "?n < 2 ^ floorlog 2 ?n" by auto
  have p: "floorlog 2 ?n > 0" using n by (simp add: floorlog_def)
  have il: "ilog2 x = int (floorlog 2 ?n - 1)" using assms p by (simp add: ilog2_def)
  show "0 \<le> ilog2 x" by (simp add: il)
  have "(2::rat) ^ (floorlog 2 ?n - 1) = of_nat (2 ^ (floorlog 2 ?n - 1))" by simp
  also have "\<dots> \<le> of_nat ?n" using b(1) by (simp only: of_nat_le_iff)
  also have "\<dots> \<le> x" using assms by (simp add: of_nat_nat)
  finally show "2 ^ nat (ilog2 x) \<le> x" by (simp add: il)
  have "x < of_int (\<lfloor>x\<rfloor> + 1)" by linarith
  also have "\<dots> = of_nat (?n + 1)" using assms by simp
  also have "\<dots> \<le> of_nat (2 ^ floorlog 2 ?n)"
  proof -
    from b(2) have "Suc ?n \<le> 2 ^ floorlog 2 ?n" by (rule Suc_leI)
    then have "?n + 1 \<le> 2 ^ floorlog 2 ?n" by (simp only: Suc_eq_plus1)
    then show ?thesis by (simp only: of_nat_le_iff)
  qed
  also have "\<dots> = (2::rat) ^ floorlog 2 ?n" by simp
  finally have "x < 2 ^ floorlog 2 ?n" .
  moreover have "nat (ilog2 x) + 1 = floorlog 2 ?n"
  proof -
    have "nat (ilog2 x) = floorlog 2 ?n - 1" by (simp only: il nat_int)
    with p show ?thesis by arith
  qed
  ultimately show "x < 2 ^ (nat (ilog2 x) + 1)" by (simp only:)
qed

lemma ilog2_bounds_lt1:
  assumes "0 < x" "x < 1"
  shows "ilog2 x < 0" and "1 \<le> x * 2 ^ nat (- ilog2 x)" and "x * 2 ^ nat (- ilog2 x) < 2"
proof -
  define c where "c = \<lceil>1 / x\<rceil>"
  define n where "n = nat (c - 1)"
  define k where "k = floorlog 2 n"
  have y: "1 < 1 / x" using assms by simp
  then have c2: "2 \<le> c" unfolding c_def by linarith
  then have n: "0 < n" by (simp add: n_def)
  from floorlog_bounds [where b = 2 and x = n] n
  have b: "2 ^ (k - 1) \<le> n" "n < 2 ^ k" by (auto simp: k_def)
  have p: "0 < k" using n by (simp add: k_def floorlog_def)
  have il: "ilog2 x = - int k" using assms by (simp add: ilog2_def k_def n_def c_def)
  show "ilog2 x < 0" using p by (simp add: il)
  have nk: "nat (- ilog2 x) = k" by (simp add: il)
  have "int n = c - 1" using c2 by (simp add: n_def)
  then have cn: "(of_int c :: rat) = of_nat n + 1"
    by (metis add.commute diff_add_cancel of_int_1 of_int_add of_int_of_nat_eq)
  have "1 / x \<le> of_int c" unfolding c_def by linarith
  also have "\<dots> = of_nat (n + 1)" by (simp add: cn)
  also have "\<dots> \<le> of_nat (2 ^ k)"
  proof -
    from b(2) have "Suc n \<le> 2 ^ k" by (rule Suc_leI)
    then have "n + 1 \<le> 2 ^ k" by (simp only: Suc_eq_plus1)
    then show ?thesis by (simp only: of_nat_le_iff)
  qed
  also have "\<dots> = (2::rat) ^ k" by simp
  finally have "1 / x \<le> 2 ^ k" .
  then show "1 \<le> x * 2 ^ nat (- ilog2 x)"
    using assms(1) by (simp add: nk field_simps)
  have "(2::rat) ^ (k - 1) = of_nat (2 ^ (k - 1))" by simp
  also have "\<dots> \<le> of_nat n" using b(1) by (simp only: of_nat_le_iff)
  also have "\<dots> = of_int c - 1" by (simp add: cn)
  also have "\<dots> < 1 / x" unfolding c_def by linarith
  finally have "(2::rat) ^ (k - 1) < 1 / x" .
  then have "x * 2 ^ (k - 1) < 1" using assms(1) by (simp add: field_simps)
  moreover have "(2::rat) ^ k = 2 * 2 ^ (k - 1)"
    using p by (cases k) simp_all
  ultimately show "x * 2 ^ nat (- ilog2 x) < 2" by (simp add: nk)
qed

lemma fl_exact:
  assumes "x \<noteq> 0" and "x / ulp x = of_int m" and "\<bar>x\<bar> < 2 ^ 1024"
  shows "fl x = Finite x"
proof -
  have u: "ulp x \<noteq> 0" by (simp add: ulp_def)
  have "roundTiesToEven (x / ulp x) = m" by (simp only: assms(2) roundTiesToEven_of_int)
  moreover have "of_int m * ulp x = x" using assms(2) u by (simp add: field_simps)
  ultimately have "of_int (roundTiesToEven (x / ulp x)) * ulp x = x" by simp
  with assms(1,3) show ?thesis by (simp add: fl_def Let_def abs_if split: if_splits)
qed

lemma fl_of_int:
  assumes "\<bar>k\<bar> \<le> 2 ^ 53"
  shows "fl (of_int k) = Finite (of_int k)"
proof (cases "k = 0")
  case True
  then show ?thesis by (simp add: fl_def)
next
  case False
  let ?x = "of_int k :: rat"
  let ?e = "ilog2 \<bar>?x\<bar>"
  have x1: "1 \<le> \<bar>?x\<bar>" using False by (simp flip: of_int_abs)
  note b = ilog2_bounds_ge1 [OF x1]
  have ax: "\<bar>?x\<bar> \<le> 2 ^ 53"
  proof -
    have "of_int \<bar>k\<bar> \<le> (of_int (2 ^ 53) :: rat)" using assms by (simp only: of_int_le_iff)
    then show ?thesis by simp
  qed
  have p53: "(2::rat) ^ nat ?e \<le> 2 ^ 53" using b(2) ax by (rule order_trans)
  have e53: "nat ?e \<le> 53" by (rule power_le_imp_le_exp [OF _ p53]) simp
  have ul: "ulp ?x = 2 powi (?e - 52)" using b(1) by (simp add: ulp_def max_def)
  have big: "\<bar>?x\<bar> < 2 ^ 1024"
  proof -
    have "(2::rat) ^ 53 < 2 ^ 1024" by simp
    with ax show ?thesis by (rule le_less_trans)
  qed
  have "\<exists>m. ?x / ulp ?x = of_int m"
  proof (cases "nat ?e \<le> 52")
    case True
    then have "?e - 52 \<le> 0" by simp
    then have "ulp ?x = 1 / 2 ^ nat (52 - ?e)"
      by (simp add: ul power_int_def power_one_over)
    then have "?x / ulp ?x = of_int (k * 2 ^ nat (52 - ?e))" by simp
    then show ?thesis ..
  next
    case False
    with e53 have e: "nat ?e = 53" by simp
    with b(2) ax have eq: "\<bar>?x\<bar> = 2 ^ 53" by simp
    from e have e': "?e = 53" by arith
    have u2: "ulp ?x = 2" by (simp add: ul e')
    have "\<bar>k\<bar> = 2 ^ 53"
    proof -
      have "(of_int \<bar>k\<bar> :: rat) = of_int (2 ^ 53)" using eq by simp
      then show ?thesis by (simp only: of_int_eq_iff)
    qed
    then have "k = 2 * 2 ^ 52 \<or> k = 2 * (- (2 ^ 52))" by (simp add: abs_if split: if_splits)
    then obtain m where "k = 2 * m" by blast
    then have "?x / 2 = of_int m" by simp
    then have "?x / ulp ?x = of_int m" by (simp only: u2)
    then show ?thesis ..
  qed
  then obtain m where "?x / ulp ?x = of_int m" ..
  with False big show ?thesis by (intro fl_exact) auto
qed

lemma fl_of_nat: "n \<le> 2 ^ 53 \<Longrightarrow> fl (of_nat n) = Finite (of_nat n)"
  using fl_of_int [of "int n"] by simp

lemma fl_91_3: "fl (91 / 3) = Finite (8538074293556565 / 281474976710656)"
proof -
  have f: "floorlog 2 30 = 5" by code_simp
  have "\<lfloor>91 / 3 :: rat\<rfloor> = 30" by (rule floor_unique) simp_all
  then have il: "ilog2 (91 / 3) = 4" by (simp add: ilog2_def f)
  have u: "ulp (91 / 3) = 1 / 281474976710656"
    by (simp add: ulp_def il power_int_def power_one_over)
  have q: "91 / 3 / ulp (91 / 3) = (25614222880669696 / 3 :: rat)" by (simp add: u)
  have "\<lfloor>25614222880669696 / 3 :: rat\<rfloor> = 8538074293556565"
    by (rule floor_unique) simp_all
  then have r: "roundTiesToEven (25614222880669696 / 3) = 8538074293556565"
    by (simp add: roundTiesToEven_def Let_def)
  show ?thesis
    by (simp only: fl_def Let_def q) (simp add: r u)
qed

lemma fl_tenth: "fl (1 / 10) = Finite (3602879701896397 / 36028797018963968)"
proof -
  have f: "floorlog 2 9 = 4" by code_simp
  have "\<lceil>1 / (1 / 10) :: rat\<rceil> = 10" by simp
  then have il: "ilog2 (1 / 10) = - 4" by (simp add: ilog2_def f)
  have u: "ulp (1 / 10) = 1 / 72057594037927936"
    by (simp add: ulp_def il power_int_def power_one_over)
  have q: "1 / 10 / ulp (1 / 10) = (36028797018963968 / 5 :: rat)" by (simp add: u)
  have "\<lfloor>36028797018963968 / 5 :: rat\<rfloor> = 7205759403792793"
    by (rule floor_unique) simp_all
  then have r: "roundTiesToEven (36028797018963968 / 5) = 7205759403792794"
    by (simp add: roundTiesToEven_def Let_def)
  show ?thesis
    by (simp only: fl_def Let_def q) (simp add: r u)
qed

subsection \<open>Listings whose ages are numbers\<close>

lemma fold_plus_numbers:
  "map (\<lambda>u. get u ''age'') us = map JNum ages \<Longrightarrow>
   fold (\<lambda>user sum. js_plus rt sum (get user ''age'')) us (PNumber a)
     = PNumber (fold (\<lambda>age sum. fadd sum (Finite age)) ages a)"
proof (induction us arbitrary: ages a)
  case Nil
  then show ?case by simp
next
  case (Cons u us)
  then obtain x xs where ages: "ages = x # xs" and x: "get u ''age'' = JNum x"
    and xs: "map (\<lambda>u. get u ''age'') us = map JNum xs"
    by (cases ages) auto
  show ?case by (simp add: ages x Cons.IH [OF xs])
qed

lemma ToNumber_numbers:
  "map (\<lambda>u. get u ''age'') us = map JNum ages \<Longrightarrow>
   map (\<lambda>user. ToNumber rt (get user ''age'')) us = map Finite ages"
proof (induction us arbitrary: ages)
  case Nil
  then show ?case by simp
next
  case (Cons u us)
  then show ?case by (cases ages) auto
qed

lemma fold_min_Finite:
  "fold (\<lambda>x m. if num_less x m then x else m) (map Finite xs) (Finite a) = Finite (fold min xs a)"
  by (induction xs arbitrary: a) (auto simp: min_def)

lemma fold_max_Finite:
  "fold (\<lambda>x m. if num_less m x then x else m) (map Finite xs) (Finite a) = Finite (fold max xs a)"
  by (induction xs arbitrary: a) (auto simp: max_def)

lemma Math_min_Min: "ages \<noteq> [] \<Longrightarrow> Math_min (map Finite ages) = Finite (Min (set ages))"
proof (cases ages)
  case (Cons a as)
  have "NaN \<notin> set (map Finite ages)" by auto
  then show ?thesis
    using Min.set_eq_fold [of a as] by (simp add: Math_min_def Cons fold_min_Finite)
qed simp

lemma Math_max_Max: "ages \<noteq> [] \<Longrightarrow> Math_max (map Finite ages) = Finite (Max (set ages))"
proof (cases ages)
  case (Cons a as)
  have "NaN \<notin> set (map Finite ages)" by auto
  then show ?thesis
    using Max.set_eq_fold [of a as] by (simp add: Math_max_def Cons fold_max_Finite)
qed simp

text \<open>When every partial sum is a double, no addition rounds.\<close>

lemma fold_fadd_exact:
  "\<forall>k \<le> length ages. fl (a + sum_list (take k ages)) = Finite (a + sum_list (take k ages)) \<Longrightarrow>
   fold (\<lambda>age sum. fadd sum (Finite age)) ages (Finite a) = Finite (a + sum_list ages)"
proof (induction ages arbitrary: a)
  case Nil
  then show ?case by simp
next
  case (Cons x xs)
  have "Suc 0 \<le> length (x # xs)" by simp
  with Cons.prems
  have "fl (a + sum_list (take (Suc 0) (x # xs))) = Finite (a + sum_list (take (Suc 0) (x # xs)))"
    by blast
  then have s1: "fl (a + x) = Finite (a + x)" by simp
  have "\<forall>k \<le> length xs. fl (a + x + sum_list (take k xs)) = Finite (a + x + sum_list (take k xs))"
  proof (intro allI impI)
    fix k assume "k \<le> length xs"
    then have "Suc k \<le> length (x # xs)" by simp
    with Cons.prems
    have "fl (a + sum_list (take (Suc k) (x # xs))) = Finite (a + sum_list (take (Suc k) (x # xs)))"
      by blast
    then show "fl (a + x + sum_list (take k xs)) = Finite (a + x + sum_list (take k xs))"
      by (simp add: add.assoc)
  qed
  from Cons.IH [OF this] show ?case by (simp add: s1 add.assoc)
qed

text \<open>Ages that are natural numbers with a sum of at most \<open>2 ^ 53\<close> are of this kind.\<close>

lemma partial_sums_of_naturals:
  assumes "sum_list ns \<le> 2 ^ 53" and "k \<le> length ns"
  shows "fl (sum_list (take k (map of_nat ns))) = Finite (sum_list (take k (map of_nat ns)))"
proof -
  have "sum_list ns = sum_list (take k ns) + sum_list (drop k ns)"
    by (metis append_take_drop_id sum_list_append)
  with assms(1) have le: "sum_list (take k ns) \<le> 2 ^ 53" by linarith
  have "sum_list (map of_nat ms) = (of_nat (sum_list ms) :: rat)" for ms :: "nat list"
    by (induction ms) simp_all
  then have "sum_list (take k (map of_nat ns)) = (of_nat (sum_list (take k ns)) :: rat)"
    by (simp add: take_map)
  with fl_of_nat [OF le] show ?thesis by simp
qed

text \<open>
  C9, amended. For every listing that the store returns in which every \<open>age\<close>
  is a number, \<open>getUserStats\<close> succeeds with \<open>totalUsers\<close> the length of the
  listing, \<open>averageAge\<close> the ages added from left to right and the sum divided
  by their number, each operation rounding to the nearest double,
  \<open>youngestUser\<close> the least and \<open>oldestUser\<close> the greatest age, all three being 0
  for the empty listing. When no addition rounds, as with ages that are
  natural numbers of a sum up to \<open>2 ^ 53\<close>, \<open>averageAge\<close> is the arithmetic
  mean rounded to the nearest double. For the ages 30, 25, 35 the result is
  3, 30, 25, 35.
\<close>

theorem stats_of_listing:
  "findAllUsers d = Inr us \<Longrightarrow> map (\<lambda>u. get u ''age'') us = map JNum ages \<Longrightarrow>
   svc_getUserStats rt d =
     \<lparr>success = True,
      data = Some (StatsData
        \<lparr>totalUsers = length us,
         averageAge = (if us = [] then Finite 0
                       else fdiv (fold (\<lambda>age sum. fadd sum (Finite age)) ages (Finite 0)) (length us)),
         youngestUser = (if us = [] then Finite 0 else Finite (Min (set ages))),
         oldestUser = (if us = [] then Finite 0 else Finite (Max (set ages)))\<rparr>),
      error = None,
      message = ''User statistics retrieved successfully''\<rparr>
   \<and> ((\<forall>k \<le> length ages. fl (sum_list (take k ages)) = Finite (sum_list (take k ages))) \<longrightarrow>
      svc_getUserStats rt d =
        \<lparr>success = True,
         data = Some (StatsData
           \<lparr>totalUsers = length us,
            averageAge = (if us = [] then Finite 0 else fl (sum_list ages / of_nat (length us))),
            youngestUser = (if us = [] then Finite 0 else Finite (Min (set ages))),
            oldestUser = (if us = [] then Finite 0 else Finite (Max (set ages)))\<rparr>),
         error = None,
         message = ''User statistics retrieved successfully''\<rparr>)"
proof -
  assume f: "findAllUsers d = Inr us" and a: "map (\<lambda>u. get u ''age'') us = map JNum ages"
  from a have len: "length ages = length us" by (metis length_map)
  then have ne: "us \<noteq> [] \<Longrightarrow> ages \<noteq> []" by auto
  have g: "svc_getUserStats rt d =
     \<lparr>success = True,
      data = Some (StatsData
        \<lparr>totalUsers = length us,
         averageAge = (if us = [] then Finite 0
                       else fdiv (fold (\<lambda>age sum. fadd sum (Finite age)) ages (Finite 0)) (length us)),
         youngestUser = (if us = [] then Finite 0 else Finite (Min (set ages))),
         oldestUser = (if us = [] then Finite 0 else Finite (Max (set ages)))\<rparr>),
      error = None,
      message = ''User statistics retrieved successfully''\<rparr>"
    using f ne
    by (simp add: svc_getUserStats_def computeStats_def succeed_def fold_plus_numbers [OF a]
        ToNumber_numbers [OF a] Math_min_Min Math_max_Max)
  show ?thesis
  proof (intro conjI impI)
    show "svc_getUserStats rt d =
     \<lparr>success = True,
      data = Some (StatsData
        \<lparr>totalUsers = length us,
         averageAge = (if us = [] then Finite 0
                       else fdiv (fold (\<lambda>age sum. fadd sum (Finite age)) ages (Finite 0)) (length us)),
         youngestUser = (if us = [] then Finite 0 else Finite (Min (set ages))),
         oldestUser = (if us = [] then Finite 0 else Finite (Max (set ages)))\<rparr>),
      error = None,
      message = ''User statistics retrieved successfully''\<rparr>"
      by (rule g)
  next
    assume "\<forall>k \<le> length ages. fl (sum_list (take k ages)) = Finite (sum_list (take k ages))"
    then have "fold (\<lambda>age sum. fadd sum (Finite age)) ages (Finite 0) = Finite (0 + sum_list ages)"
      by (intro fold_fadd_exact) simp
    then show "svc_getUserStats rt d =
        \<lparr>success = True,
         data = Some (StatsData
           \<lparr>totalUsers = length us,
            averageAge = (if us = [] then Finite 0 else fl (sum_list ages / of_nat (length us))),
            youngestUser = (if us = [] then Finite 0 else Finite (Min (set ages))),
            oldestUser = (if us = [] then Finite 0 else Finite (Max (set ages)))\<rparr>),
         error = None,
         message = ''User statistics retrieved successfully''\<rparr>"
      by (simp add: g)
  qed
qed

theorem stats_of_listing_witness:
  "findAllUsers \<lparr>users = [(JStr ''a'', [''age'' \<mapsto> JNum 30]), (JStr ''b'', [''age'' \<mapsto> JNum 25]),
                          (JStr ''c'', [''age'' \<mapsto> JNum 35])], isConnected = True\<rparr>
     = Inr [[''age'' \<mapsto> JNum 30], [''age'' \<mapsto> JNum 25], [''age'' \<mapsto> JNum 35]]
   \<and> map (\<lambda>u. get u ''age'') [[''age'' \<mapsto> JNum 30], [''age'' \<mapsto> JNum 25], [''age'' \<mapsto> JNum 35]]
     = map JNum [30, 25, 35]
   \<and> svc_getUserStats exampleRuntime
        \<lparr>users = [(JStr ''a'', [''age'' \<mapsto> JNum 30]), (JStr ''b'', [''age'' \<mapsto> JNum 25]),
                          (JStr ''c'', [''age'' \<mapsto> JNum 35])], isConnected = True\<rparr>
     = \<lparr>success = True,
        data = Some (StatsData \<lparr>totalUsers = 3, averageAge = Finite 30, youngestUser = Finite 25,
                                oldestUser = Finite 35\<rparr>),
        error = None, message = ''User statistics retrieved successfully''\<rparr>
   \<and> svc_getUserStats exampleRuntime \<lparr>users = [], isConnected = True\<rparr>
     = \<lparr>success = True,
        data = Some (StatsData \<lparr>totalUsers = 0, averageAge = Finite 0, youngestUser = Finite 0,
                                oldestUser = Finite 0\<rparr>),
        error = None, message = ''User statistics retrieved successfully''\<rparr>"
proof -
  let ?d = "\<lparr>users = [(JStr ''a'', [''age'' \<mapsto> JNum 30]), (JStr ''b'', [''age'' \<mapsto> JNum 25]),
                          (JStr ''c'', [''age'' \<mapsto> JNum 35])], isConnected = True\<rparr>"
  let ?us = "[[''age'' \<mapsto> JNum 30], [''age'' \<mapsto> JNum 25], [''age'' \<mapsto> JNum 35]]"
  have f: "findAllUsers ?d = Inr ?us" by (simp add: findAllUsers_def map_values_def)
  have a: "map (\<lambda>u. get u ''age'') ?us = map JNum [30, 25, 35]" by (simp add: get_def)
  have ex: "\<forall>k \<le> length [30, 25, 35 :: rat].
      fl (sum_list (take k [30, 25, 35])) = Finite (sum_list (take k [30, 25, 35]))"
  proof (intro allI impI)
    fix k assume "k \<le> length [30, 25, 35 :: rat]"
    then have k: "k \<le> length [30, 25, 35 :: nat]" by simp
    have "sum_list [30, 25, 35 :: nat] \<le> 2 ^ 53" by simp
    from partial_sums_of_naturals [OF this k]
    show "fl (sum_list (take k [30, 25, 35])) = Finite (sum_list (take k [30, 25, 35]))" by simp
  qed
  have m: "fl 30 = Finite 30"
    using fl_of_nat [of 30] by simp
  have f0: "findAllUsers \<lparr>users = [], isConnected = True\<rparr> = Inr []"
    by (simp add: findAllUsers_def map_values_def)
  have a0: "map (\<lambda>u. get u ''age'') [] = map JNum []" by simp
  note t = stats_of_listing [OF f a, of exampleRuntime, THEN conjunct2, THEN mp, OF ex]
  note t0 = stats_of_listing [OF f0 a0, of exampleRuntime, THEN conjunct1]
  have r: "svc_getUserStats exampleRuntime ?d
     = \<lparr>success = True,
        data = Some (StatsData \<lparr>totalUsers = 3, averageAge = Finite 30, youngestUser = Finite 25,
                                oldestUser = Finite 35\<rparr>),
        error = None, message = ''User statistics retrieved successfully''\<rparr>"
    using t by (simp add: m)
  have r0: "svc_getUserStats exampleRuntime \<lparr>users = [], isConnected = True\<rparr>
     = \<lparr>success = True,
        data = Some (StatsData \<lparr>totalUsers = 0, averageAge = Finite 0, youngestUser = Finite 0,
                                oldestUser = Finite 0\<rparr>),
        error = None, message = ''User statistics retrieved successfully''\<rparr>"
    using t0 by simp
  show ?thesis by (intro conjI f a r r0)
qed

text \<open>
  As stated, C9 fails in two ways. For the ages 30, 25, 36 the arithmetic mean
  is 91/3, which is no double, and \<open>averageAge\<close> is the double next to it. And
  a listing may hold a user without an \<open>age\<close> (the store does not validate):
  then \<open>averageAge\<close>, \<open>youngestUser\<close> and \<open>oldestUser\<close> are \<open>NaN\<close>.
\<close>

theorem stats_counterexample:
  "data (svc_getUserStats exampleRuntime
        \<lparr>users = [(JStr ''a'', [''age'' \<mapsto> JNum 30]), (JStr ''b'', [''age'' \<mapsto> JNum 25]),
                   (JStr ''c'', [''age'' \<mapsto> JNum 36])], isConnected = True\<rparr>)
     = Some (StatsData \<lparr>totalUsers = 3,
                         averageAge = Finite (8538074293556565 / 281474976710656),
                         youngestUser = Finite 25, oldestUser = Finite 36\<rparr>)
   \<and> (8538074293556565 / 281474976710656 :: rat) \<noteq> (30 + 25 + 36) / 3
   \<and> data (svc_getUserStats exampleRuntime
        \<lparr>users = [(JStr ''a'', [''age'' \<mapsto> JNum 30]), (JStr ''b'', [''name'' \<mapsto> JStr ''Bo''])],
          isConnected = True\<rparr>)
     = Some (StatsData \<lparr>totalUsers = 2, averageAge = NaN, youngestUser = NaN, oldestUser = NaN\<rparr>)"
proof -
  have s: "fl 30 = Finite 30" "fl 55 = Finite 55" "fl 91 = Finite 91"
    using fl_of_nat [of 30] fl_of_nat [of 55] fl_of_nat [of 91] by simp_all
  show ?thesis
    by (simp add: svc_getUserStats_def findAllUsers_def map_values_def computeStats_def
        succeed_def get_def s fl_91_3 Math_min_def Math_max_def)
qed

subsection \<open>A listing with a string for an age\<close>

text \<open>
  With the ages 30 and \<open>'25'\<close> the sum is the string \<open>3025\<close> and \<open>averageAge\<close> is
  1512.5, given what the runtime's conversions return for these arguments.
\<close>

lemma stats_with_a_string_age:
  assumes "Number_toString rt 30 = ''30''" and "String_toNumber rt ''3025'' = Finite 3025"
    and "String_toNumber rt ''25'' = Finite 25"
  shows "computeStats rt [[''age'' \<mapsto> JNum 30], [''age'' \<mapsto> JStr ''25'']]
    = \<lparr>totalUsers = 2, averageAge = Finite (3025 / 2), youngestUser = Finite 25,
        oldestUser = Finite 30\<rparr>"
proof -
  have s: "fl 30 = Finite 30" using fl_of_nat [of 30] by simp
  have f: "floorlog 2 1512 = 11" by code_simp
  have "\<lfloor>3025 / 2 :: rat\<rfloor> = 1512" by (rule floor_unique) simp_all
  then have il: "ilog2 (3025 / 2) = 10" by (simp add: ilog2_def f)
  have u: "ulp (3025 / 2) = 1 / 4398046511104"
    by (simp add: ulp_def il power_int_def power_one_over)
  have "3025 / 2 / ulp (3025 / 2) = of_int 6652045348044800" by (simp add: u)
  then have h: "fl (3025 / 2) = Finite (3025 / 2)" by (rule fl_exact [rotated]) simp_all
  show ?thesis
    by (simp add: computeStats_def get_def s assms h Math_min_def Math_max_def)
qed

end
